theory Spec2Isabelle
  imports Main "HOL-Library.Word" "HOL-Library.Sublist"
begin

section \<open>Strings of the source language\<close>

text \<open>
  A TypeScript string is a sequence of 16-bit code units. String literals of the source
  are written as HOL strings and injected with \<open>js\<close>; every literal of the modelled code
  is ASCII, so the injection is the identity on code points.
\<close>

type_synonym code_unit = "16 word"
type_synonym jsstring = "code_unit list"

definition js :: "string \<Rightarrow> jsstring" where
  "js s = map of_char s"

text \<open>
  The character classes of the regular expressions of the source (none has the \<open>u\<close> or
  \<open>i\<close> flag): \<open>\s\<close> is WhiteSpace and LineTerminator of ECMAScript, the set that
  \<open>String.prototype.trim\<close> strips as well; \<open>\d\<close> is \<open>[0-9]\<close>; \<open>\w\<close> is
  \<open>[A-Za-z0-9_]\<close>.
\<close>

definition isWhiteSpace :: "code_unit \<Rightarrow> bool" where
  "isWhiteSpace c =
     (c = 0x09 \<or> c = 0x0A \<or> c = 0x0B \<or> c = 0x0C \<or> c = 0x0D \<or> c = 0x20 \<or> c = 0xA0
      \<or> c = 0x1680 \<or> (0x2000 \<le> c \<and> c \<le> 0x200A) \<or> c = 0x2028 \<or> c = 0x2029
      \<or> c = 0x202F \<or> c = 0x205F \<or> c = 0x3000 \<or> c = 0xFEFF)"

definition isDigit :: "code_unit \<Rightarrow> bool" where
  "isDigit c = (0x30 \<le> c \<and> c \<le> 0x39)"

definition isWordChar :: "code_unit \<Rightarrow> bool" where
  "isWordChar c =
     ((0x61 \<le> c \<and> c \<le> 0x7A) \<or> (0x41 \<le> c \<and> c \<le> 0x5A) \<or> isDigit c \<or> c = 0x5F)"

definition isQuote :: "code_unit \<Rightarrow> bool" where
  "isQuote c = (c = 0x22 \<or> c = 0x27)"

text \<open>\<open>String.prototype.trim\<close>: white space is removed from both ends.\<close>

definition String_trim :: "jsstring \<Rightarrow> jsstring" where
  "String_trim s = rev (dropWhile isWhiteSpace (rev (dropWhile isWhiteSpace s)))"

text \<open>\<open>Array.prototype.join\<close> on an array of strings.\<close>

fun Array_join :: "jsstring \<Rightarrow> jsstring list \<Rightarrow> jsstring" where
  "Array_join sep [] = []"
| "Array_join sep [x] = x"
| "Array_join sep (x # y # zs) = x @ sep @ Array_join sep (y # zs)"

text \<open>
  \<open>Number.prototype.toString\<close> on an integer below \<open>10^21\<close> in absolute value (a year, a
  millisecond time stamp): the decimal digits, after a minus sign when negative.
\<close>

fun digits_of :: "nat \<Rightarrow> jsstring" where
  "digits_of n =
     (if n < 10 then [of_nat (48 + n)] else digits_of (n div 10) @ [of_nat (48 + n mod 10)])"

declare digits_of.simps [simp del]

definition Number_toString :: "int \<Rightarrow> jsstring" where
  "Number_toString n = (if n < 0 then 0x2D # digits_of (nat (- n)) else digits_of (nat n))"


section \<open>Regular expressions with backtracking\<close>

text \<open>
  The two regular expressions of the source are sequences of literal characters and of
  character classes under \<open>*\<close>, \<open>+\<close> and \<open>?\<close>, with one capturing group. A node, run on
  an input, gives the inputs that can remain after it, in the order in which the
  backtracking matcher of ECMAScript tries them: the quantifiers are greedy, so the
  longest repetition comes first.
\<close>

datatype re_node =
    Chr code_unit
  | Star "code_unit \<Rightarrow> bool"
  | Plus "code_unit \<Rightarrow> bool"
  | Opt "code_unit \<Rightarrow> bool"

record regex =
  re_before :: "re_node list"
  re_group :: "re_node list"
  re_after :: "re_node list"

fun star :: "(code_unit \<Rightarrow> bool) \<Rightarrow> jsstring \<Rightarrow> jsstring list" where
  "star p [] = [[]]"
| "star p (c # cs) = (if p c then star p cs @ [c # cs] else [c # cs])"

fun step :: "re_node \<Rightarrow> jsstring \<Rightarrow> jsstring list" where
  "step (Chr x) [] = []"
| "step (Chr x) (c # cs) = (if c = x then [cs] else [])"
| "step (Star p) s = star p s"
| "step (Plus p) [] = []"
| "step (Plus p) (c # cs) = (if p c then star p cs else [])"
| "step (Opt p) [] = [[]]"
| "step (Opt p) (c # cs) = (if p c then [cs, c # cs] else [c # cs])"

fun run :: "re_node list \<Rightarrow> jsstring \<Rightarrow> jsstring list" where
  "run [] s = [s]"
| "run (n # ns) s = concat (map (run ns) (step n s))"

text \<open>
  A match that starts at the head of the input. Once the part before the group has left
  \<open>s1\<close>, the group and the part after it are tried on \<open>s1\<close>; every success is the text
  the group has consumed and the input left after the whole match. The match is the first
  success of the depth-first search.
\<close>

definition group_matches :: "regex \<Rightarrow> jsstring \<Rightarrow> (jsstring \<times> jsstring) list" where
  "group_matches r s1 =
     concat (map (\<lambda>s2. map (\<lambda>s3. (take (length s1 - length s2) s1, s3)) (run (re_after r) s2))
               (run (re_group r) s1))"

definition match_at :: "regex \<Rightarrow> jsstring \<Rightarrow> (jsstring \<times> jsstring) option" where
  "match_at r s =
     (case concat (map (group_matches r) (run (re_before r) s)) of
        [] \<Rightarrow> None
      | m # _ \<Rightarrow> Some m)"

text \<open>
  \<open>RegExp.prototype.exec\<close> without the \<open>g\<close> flag, read at \<open>?.[1]\<close>: the start positions
  are tried from the left, the end of the input included; the result is capture group 1
  of the first match, or \<open>None\<close> for \<open>undefined\<close>.
\<close>

fun exec_group1 :: "regex \<Rightarrow> jsstring \<Rightarrow> jsstring option" where
  "exec_group1 r [] = map_option fst (match_at r [])"
| "exec_group1 r (c # cs) =
     (case match_at r (c # cs) of Some m \<Rightarrow> Some (fst m) | None \<Rightarrow> exec_group1 r cs)"

text \<open>
  \<open>String.prototype.replace\<close> with a \<open>g\<close> regular expression and a replacer function of
  capture group 1. After an empty match the scan moves on by one code unit.
\<close>

function String_replace_global :: "regex \<Rightarrow> (jsstring \<Rightarrow> jsstring) \<Rightarrow> jsstring \<Rightarrow> jsstring" where
  "String_replace_global r f s =
     (case match_at r s of
        Some (cap, rest) \<Rightarrow>
          if length rest < length s then f cap @ String_replace_global r f rest
          else f cap @ (case s of [] \<Rightarrow> [] | c # cs \<Rightarrow> c # String_replace_global r f cs)
      | None \<Rightarrow> (case s of [] \<Rightarrow> [] | c # cs \<Rightarrow> c # String_replace_global r f cs))"
  by pat_completeness auto
termination
  by (relation "measure (\<lambda>(r, f, s). length s)") auto

declare String_replace_global.simps [simp del]


section \<open>The footer template formatter\<close>

text \<open>
  The part of the site settings that the modelled code reads or writes by name; the other
  fields of the schema travel in \<open>otherSiteFields\<close>. A footer line is an object with
  the one field \<open>value\<close>, here \<open>line_value\<close>; the fields \<open>currency\<close>, \<open>name\<close> and
  \<open>href\<close> of a support link carry the prefix \<open>support_\<close>, since a navbar item has a
  \<open>name\<close> and a \<open>href\<close> too; the parameter \<open>text\<close> of \<open>formatFooterContent\<close> is
  \<open>text_items\<close>.
\<close>

record navbar_item =
  icon :: jsstring
  name :: jsstring
  href :: jsstring
  external :: bool

record support_item =
  support_currency :: jsstring
  support_name :: jsstring
  support_href :: jsstring

record footer_item =
  line_value :: jsstring

record 'o site_config =
  siteName :: "jsstring option"
  siteNameTemplate :: "jsstring option"
  siteAuthor :: "jsstring option"
  twitterHandle :: "jsstring option"
  navbarItems :: "navbar_item list"
  supports :: "support_item list"
  footer :: "footer_item list"
  otherSiteFields :: 'o

text \<open>
  What \<open>formatFooterContent\<close> reads besides its arguments: the clock
  (\<open>new Date().getFullYear()\<close>), the imported \<open>config\<close> module (its \<open>version\<close> and
  \<open>siteConfig\<close>), and the text an engine prints for a built-in function, which
  ECMAScript leaves to the implementation. \<open>None\<close> is \<open>undefined\<close>.
\<close>

record 'o runtime =
  getFullYear :: int
  config_version :: "jsstring option"
  config_siteConfig :: "'o site_config"
  nativeFunctionText :: "jsstring \<Rightarrow> jsstring"

datatype jsvalue =
    JSUndefined
  | JSString jsstring
  | JSNativeFunction jsstring
  | JSObjectPrototype

text \<open>A template literal prints \<open>undefined\<close> for a missing value.\<close>

definition template_part :: "jsstring option \<Rightarrow> jsstring" where
  "template_part v = (case v of None \<Rightarrow> js ''undefined'' | Some s \<Rightarrow> s)"

definition nullish_or :: "'a option \<Rightarrow> 'a \<Rightarrow> 'a" where
  "nullish_or v d = (case v of None \<Rightarrow> d | Some x \<Rightarrow> x)"

text \<open>The own properties of the object literal \<open>formatMap\<close>, in source order.\<close>

definition formatMap :: "'o runtime \<Rightarrow> 'o site_config \<Rightarrow> (jsstring \<times> jsstring) list" where
  "formatMap rt data =
     [(js ''year'', Number_toString (getFullYear rt)),
      (js ''repository'', js ''[Source Code](https://github.com/mbaharip/next-gdrive-index)''),
      (js ''poweredBy'', js ''Powered by [next-gdrive-index v'' @ template_part (config_version rt)
          @ js ''](https://github.com/mbaharip/next-gdrive-index)''),
      (js ''author'', nullish_or (siteAuthor data) (js ''mbaharip'')),
      (js ''version'', nullish_or (config_version rt) (js ''0.0.0'')),
      (js ''siteName'', nullish_or (siteName data) (js ''next-gdrive-index'')),
      (js ''handle'', nullish_or (twitterHandle data) (js ''@__mbaharip__'')),
      (js ''creator'', js ''mbaharip'')]"

text \<open>
  \<open>formatMap[key]\<close> is a property read on an ordinary object: an own property first,
  then the properties every object literal inherits from \<open>Object.prototype\<close> (the
  built-in methods, and the accessor \<open>__proto__\<close>, which returns \<open>Object.prototype\<close>
  itself), then \<open>undefined\<close>.
\<close>

definition Object_prototype_functions :: "(jsstring \<times> jsstring) list" where
  "Object_prototype_functions =
     [(js ''constructor'', js ''Object''),
      (js ''hasOwnProperty'', js ''hasOwnProperty''),
      (js ''isPrototypeOf'', js ''isPrototypeOf''),
      (js ''propertyIsEnumerable'', js ''propertyIsEnumerable''),
      (js ''toLocaleString'', js ''toLocaleString''),
      (js ''toString'', js ''toString''),
      (js ''valueOf'', js ''valueOf''),
      (js ''__defineGetter__'', js ''__defineGetter__''),
      (js ''__defineSetter__'', js ''__defineSetter__''),
      (js ''__lookupGetter__'', js ''__lookupGetter__''),
      (js ''__lookupSetter__'', js ''__lookupSetter__'')]"

definition formatMap_get :: "'o runtime \<Rightarrow> 'o site_config \<Rightarrow> jsstring \<Rightarrow> jsvalue" where
  "formatMap_get rt data key =
     (case map_of (formatMap rt data) key of
        Some v \<Rightarrow> JSString v
      | None \<Rightarrow>
          (case map_of Object_prototype_functions key of
             Some fname \<Rightarrow> JSNativeFunction fname
           | None \<Rightarrow> if key = js ''__proto__'' then JSObjectPrototype else JSUndefined))"

text \<open>
  The replacer is \<open>formatMap[key] ?? ""\<close>; \<open>replace\<close> converts what it returns with
  ToString.
\<close>

definition ToString :: "'o runtime \<Rightarrow> jsvalue \<Rightarrow> jsstring" where
  "ToString rt v =
     (case v of
        JSUndefined \<Rightarrow> js ''undefined''
      | JSString s \<Rightarrow> s
      | JSNativeFunction fname \<Rightarrow> nativeFunctionText rt fname
      | JSObjectPrototype \<Rightarrow> js ''[object Object]'')"

definition replacer :: "'o runtime \<Rightarrow> 'o site_config \<Rightarrow> jsstring \<Rightarrow> jsstring" where
  "replacer rt data key =
     ToString rt (case formatMap_get rt data key of JSUndefined \<Rightarrow> JSString [] | v \<Rightarrow> v)"

text \<open>The regular expression \<open>/{{\s*(\w+)\s*}}/g\<close>.\<close>

definition footer_token :: regex where
  "footer_token =
     \<lparr>re_before = [Chr 0x7B, Chr 0x7B, Star isWhiteSpace],
      re_group = [Plus isWordChar],
      re_after = [Star isWhiteSpace, Chr 0x7D, Chr 0x7D]\<rparr>"

definition formatFooterContent ::
    "'o runtime \<Rightarrow> footer_item list \<Rightarrow> 'o site_config option \<Rightarrow> jsstring" where
  "formatFooterContent rt text_items siteConfig =
     (let data = nullish_or siteConfig (config_siteConfig rt)
      in String_replace_global footer_token (replacer rt data)
           (Array_join [0x0A] (map (\<lambda>item. String_trim (line_value item)) text_items)))"



section \<open>Site name template preview\<close>

text \<open>
  \<open>String.prototype.replace\<close> with a string pattern and a string replacement: only the
  first occurrence of the pattern is replaced, and the replacement text goes through
  GetSubstitution, where \<open>$$\<close> stands for a dollar sign, \<open>$&\<close> for the matched text,
  \<open>$\<close> and a backquote for the text before the match and \<open>$'\<close> for the text after
  it. A string pattern has no capture, so \<open>$1\<close> and \<open>$<\<close> stay as they are.
\<close>

fun split_first :: "jsstring \<Rightarrow> jsstring \<Rightarrow> (jsstring \<times> jsstring) option" where
  "split_first pat [] = (if pat = [] then Some ([], []) else None)"
| "split_first pat (c # cs) =
     (if prefix pat (c # cs) then Some ([], drop (length pat) (c # cs))
      else map_option (\<lambda>(before, after). (c # before, after)) (split_first pat cs))"

fun GetSubstitution :: "jsstring \<Rightarrow> jsstring \<Rightarrow> jsstring \<Rightarrow> jsstring \<Rightarrow> jsstring" where
  "GetSubstitution matched before after [] = []"
| "GetSubstitution matched before after [c] = [c]"
| "GetSubstitution matched before after (c # d # r) =
     (if c = 0x24 \<and> d = 0x24 then 0x24 # GetSubstitution matched before after r
      else if c = 0x24 \<and> d = 0x26 then matched @ GetSubstitution matched before after r
      else if c = 0x24 \<and> d = 0x60 then before @ GetSubstitution matched before after r
      else if c = 0x24 \<and> d = 0x27 then after @ GetSubstitution matched before after r
      else c # GetSubstitution matched before after (d # r))"

definition String_replace :: "jsstring \<Rightarrow> jsstring \<Rightarrow> jsstring \<Rightarrow> jsstring" where
  "String_replace s pat replacement =
     (case split_first pat s of
        None \<Rightarrow> s
      | Some (before, after) \<Rightarrow> before @ GetSubstitution pat before after replacement @ after)"

text \<open>
  The preview of \<open>SiteForm\<close>:
  \<open>(watch("site.siteNameTemplate") ?? "No template").replace("%t", watch("site.siteName")
  ?? "Apunte UDA").replace("%s", "Page Title Goes Here")\<close>.
\<close>

definition siteNamePreview :: "jsstring option \<Rightarrow> jsstring option \<Rightarrow> jsstring" where
  "siteNamePreview template site_name =
     String_replace
       (String_replace (nullish_or template (js ''No template'')) (js ''%t'')
          (nullish_or site_name (js ''Apunte UDA'')))
       (js ''%s'') (js ''Page Title Goes Here'')"


section \<open>The configurator page\<close>

text \<open>
  The document the form holds: the sections \<open>api\<close> and \<open>site\<close>, which a configuration file
  carries, and \<open>environment\<close>. The \<open>api\<close> and \<open>environment\<close> sections are opaque here.
\<close>

record ('api, 'o) configuration_file =
  api :: 'api
  site :: "'o site_config"

record ('api, 'o, 'env) app_configuration = "('api, 'o) configuration_file" +
  environment :: 'env

datatype toast_kind = ToastLoading | ToastError | ToastSuccess

record toast =
  toast_id :: jsstring
  toast_kind :: toast_kind
  toast_message :: jsstring
  toast_description :: "jsstring option"

type_synonym blob = "8 word list"

text \<open>
  The state of the page: the form values, the two loading flags, the notifications sent
  so far (oldest first) and the files handed to the browser for download.
\<close>

record ('api, 'o, 'env) page =
  form_values :: "('api, 'o, 'env) app_configuration"
  isLoadingEnv :: bool
  isLoadingConfig :: bool
  toasts :: "toast list"
  downloads :: "(jsstring \<times> blob) list"

definition send_toast ::
    "toast_kind \<Rightarrow> jsstring \<Rightarrow> jsstring \<Rightarrow> jsstring option \<Rightarrow> ('api, 'o, 'env) page \<Rightarrow> ('api, 'o, 'env) page" where
  "send_toast k ident msg descr st =
     st\<lparr>toasts := toasts st @
        [\<lparr>toast_id = ident, toast_kind = k, toast_message = msg, toast_description = descr\<rparr>]\<rparr>"

text \<open>
  How an operation ends, as the user sees it: the kind of the last notification.
\<close>

definition last_toast_kind :: "('api, 'o, 'env) page \<Rightarrow> toast_kind option" where
  "last_toast_kind st = (case rev (toasts st) of [] \<Rightarrow> None | t # _ \<Rightarrow> Some (toast_kind t))"

text \<open>What the file picker and the server actions answer.\<close>

datatype PickFileResponse =
    PickSuccess jsstring
  | PickFailure jsstring "jsstring list"

datatype 'a action_result =
    ActionSuccess jsstring 'a
  | ActionFailure jsstring jsstring

text \<open>
  \<open>onLoadEnv\<close>. The server action \<open>ProcessEnvironmentConfig\<close> and the reading of
  \<open>Date.now()\<close> are parameters.
\<close>

definition onLoadEnv ::
    "(jsstring \<Rightarrow> 'env action_result) \<Rightarrow> int \<Rightarrow> PickFileResponse
      \<Rightarrow> ('api, 'o, 'env) page \<Rightarrow> ('api, 'o, 'env) page" where
  "onLoadEnv ProcessEnvironmentConfig now response st =
     (let ident = js ''env-latest-'' @ Number_toString now;
          st1 = send_toast ToastLoading ident (js ''Waiting for file...'') None st
      in case response of
           PickFailure msg details \<Rightarrow>
             (send_toast ToastError ident msg
                (if details = [] then None else Some (Array_join [0x0A] details)) st1)
             \<lparr>isLoadingEnv := False\<rparr>
         | PickSuccess file_text \<Rightarrow>
             (let st2 = send_toast ToastLoading ident (js ''Processing environment file...'') None st1
              in case ProcessEnvironmentConfig file_text of
                   ActionFailure msg err \<Rightarrow>
                     (send_toast ToastError ident msg (Some err) st2)\<lparr>isLoadingEnv := False\<rparr>
                 | ActionSuccess msg env \<Rightarrow>
                     (send_toast ToastSuccess ident msg None
                        (st2\<lparr>form_values := (form_values st2)\<lparr>environment := env\<rparr>\<rparr>))
                     \<lparr>isLoadingEnv := False\<rparr>))"

text \<open>
  The regular expression \<open>/version:\s*["']?(\d+\.\d+\.\d+)["']?/\<close> and the value of
  \<open>loadedVersion\<close>.
\<close>

definition version_literal :: regex where
  "version_literal =
     \<lparr>re_before = map Chr (js ''version:'') @ [Star isWhiteSpace, Opt isQuote],
      re_group = [Plus isDigit, Chr 0x2E, Plus isDigit, Chr 0x2E, Plus isDigit],
      re_after = [Opt isQuote]\<rparr>"

definition loadedVersion :: "jsstring \<Rightarrow> jsstring option" where
  "loadedVersion file_text = exec_group1 version_literal file_text"

text \<open>
  \<open>Object.entries(versionExpectMap).find(([_, v]) => v.includes(loadedVersion))?.[0]\<close>.
  The table \<open>versionExpectMap\<close> is a parameter, given as its entries in property order.
\<close>

definition versionGroup :: "(jsstring \<times> jsstring list) list \<Rightarrow> jsstring \<Rightarrow> jsstring option" where
  "versionGroup versionExpectMap v =
     map_option fst (find (\<lambda>entry. v \<in> set (snd entry)) versionExpectMap)"

text \<open>
  The tests \<open>!loadedVersion\<close> and \<open>!versionGroup\<close>: an empty string is falsy, as
  \<open>undefined\<close> is.
\<close>

definition truthy :: "jsstring option \<Rightarrow> jsstring option" where
  "truthy v = (case v of None \<Rightarrow> None | Some s \<Rightarrow> if s = [] then None else Some s)"

text \<open>
  \<open>onLoadConfig\<close>. The server action \<open>ProcessConfiguration\<close>, the table
  \<open>versionExpectMap\<close> and the reading of \<open>Date.now()\<close> are parameters.
\<close>

definition setConfigValues ::
    "('api, 'o) configuration_file \<Rightarrow> ('api, 'o, 'env) app_configuration
      \<Rightarrow> ('api, 'o, 'env) app_configuration" where
  "setConfigValues loaded f =
     (let f1 = f\<lparr>api := api loaded\<rparr>;
          f2 = f1\<lparr>site := site loaded\<rparr>;
          f3 = f2\<lparr>site := (site f2)\<lparr>navbarItems := navbarItems (site loaded)\<rparr>\<rparr>;
          f4 = f3\<lparr>site := (site f3)\<lparr>supports := supports (site loaded)\<rparr>\<rparr>
      in f4\<lparr>site := (site f4)\<lparr>footer := footer (site loaded)\<rparr>\<rparr>)"

definition onLoadConfig ::
    "(jsstring \<Rightarrow> jsstring \<Rightarrow> ('api, 'o) configuration_file action_result)
      \<Rightarrow> (jsstring \<times> jsstring list) list \<Rightarrow> int \<Rightarrow> PickFileResponse
      \<Rightarrow> ('api, 'o, 'env) page \<Rightarrow> ('api, 'o, 'env) page" where
  "onLoadConfig ProcessConfiguration versionExpectMap now response st =
     (let ident = js ''config-'' @ Number_toString now;
          st1 = send_toast ToastLoading ident (js ''Waiting for file...'') None st
      in case response of
           PickFailure msg details \<Rightarrow>
             (send_toast ToastError ident msg
                (if details = [] then None else Some (Array_join [0x0A] details)) st1)
             \<lparr>isLoadingConfig := False\<rparr>
         | PickSuccess file_text \<Rightarrow>
             (case truthy (loadedVersion file_text) of
                None \<Rightarrow>
                  (send_toast ToastError ident (js ''Version not found in configuration file'') None st1)
                  \<lparr>isLoadingConfig := False\<rparr>
              | Some v \<Rightarrow>
                  (case truthy (versionGroup versionExpectMap v) of
                     None \<Rightarrow>
                       (send_toast ToastError ident (js ''Version not recognized'')
                          (Some (js ''Loaded version: '' @ v @ js '', not matching any known version''))
                          st1)
                       \<lparr>isLoadingConfig := False\<rparr>
                   | Some g \<Rightarrow>
                       (let st2 = send_toast ToastLoading ident
                                    (js ''Version '' @ v @ js '' detected, processing...'') None st1
                        in case ProcessConfiguration file_text g of
                             ActionFailure msg err \<Rightarrow>
                               (send_toast ToastError ident msg (Some err) st2)
                               \<lparr>isLoadingConfig := False\<rparr>
                           | ActionSuccess msg loaded \<Rightarrow>
                               (send_toast ToastSuccess ident msg None
                                  (st2\<lparr>form_values := setConfigValues loaded (form_values st2)\<rparr>))
                               \<lparr>isLoadingConfig := False\<rparr>))))"

text \<open>
  \<open>onFormSubmit\<close>. The server action \<open>GenerateConfiguration\<close> and the two readings of
  \<open>Date.now()\<close> (for the notification and for the file name) are parameters.
\<close>

definition onFormSubmit ::
    "(('api, 'o, 'env) app_configuration \<Rightarrow> blob action_result) \<Rightarrow> int \<Rightarrow> int
      \<Rightarrow> ('api, 'o, 'env) app_configuration \<Rightarrow> ('api, 'o, 'env) page \<Rightarrow> ('api, 'o, 'env) page" where
  "onFormSubmit GenerateConfiguration now now' values st =
     (let ident = js ''download-'' @ Number_toString now;
          st1 = send_toast ToastLoading ident (js ''Generating configuration...'') None st
      in case GenerateConfiguration values of
           ActionFailure msg err \<Rightarrow> send_toast ToastError ident msg (Some err) st1
         | ActionSuccess msg archive \<Rightarrow>
             send_toast ToastSuccess ident (js ''Configuration generated'') None
               (st1\<lparr>downloads := downloads st1 @
                  [(Number_toString now' @ js ''-gIndex.config.zip'', archive)]\<rparr>))"

text \<open>
  Modelled from the spec: the \<open>append\<close> and \<open>remove\<close> of the field array that
  \<open>NavbarItemsField\<close> obtains from \<open>useFieldArray\<close>, a library function whose code is
  not among the sources. The specification describes them as \<open>append\<close> and
  \<open>removeAt(index)\<close> on an ordered sequence whose elements are addressed by position:
  \<open>append\<close> adds an item at the end, \<open>remove(index)\<close> takes the item at that position
  out and changes nothing when there is none. The two handlers of the component,
  \<open>navbar_addItem\<close> (the button Add Item, with its fixed new item) and
  \<open>navbar_deleteItem\<close> (the button Delete Item of the item at \<open>index\<close>), are from the
  source.
\<close>

definition fieldArray_append :: "'a list \<Rightarrow> 'a \<Rightarrow> 'a list" where
  "fieldArray_append xs x = xs @ [x]"

definition fieldArray_remove :: "'a list \<Rightarrow> nat \<Rightarrow> 'a list" where
  "fieldArray_remove xs i = take i xs @ drop (Suc i) xs"

definition update_navbarItems ::
    "(navbar_item list \<Rightarrow> navbar_item list) \<Rightarrow> ('api, 'o, 'env) page \<Rightarrow> ('api, 'o, 'env) page" where
  "update_navbarItems change st =
     st\<lparr>form_values := (form_values st)
          \<lparr>site := (site (form_values st))
              \<lparr>navbarItems := change (navbarItems (site (form_values st)))\<rparr>\<rparr>\<rparr>"

definition navbar_addItem :: "('api, 'o, 'env) page \<Rightarrow> ('api, 'o, 'env) page" where
  "navbar_addItem st =
     update_navbarItems (\<lambda>xs. fieldArray_append xs
        \<lparr>icon = js ''Link'', name = js ''New Item'', href = js ''/new-item'', external = False\<rparr>) st"

definition navbar_deleteItem :: "nat \<Rightarrow> ('api, 'o, 'env) page \<Rightarrow> ('api, 'o, 'env) page" where
  "navbar_deleteItem index st = update_navbarItems (\<lambda>xs. fieldArray_remove xs index) st"



section \<open>Example inputs\<close>

text \<open>
  Concrete inputs at which the theorems below are instantiated: site settings, a runtime
  of a given year, a document, a page that holds it, a configuration file as the server
  returns it, and a table of version groups.
\<close>

abbreviation example_site :: "unit site_config" where
  "example_site \<equiv>
     \<lparr>siteName = Some (js ''Index''), siteNameTemplate = Some (js ''%t - %s''),
      siteAuthor = None, twitterHandle = None,
      navbarItems = [\<lparr>icon = js ''Home'', name = js ''Home'', href = js ''/'', external = False\<rparr>],
      supports = [], footer = [\<lparr>line_value = js ''{{ year }}''\<rparr>], otherSiteFields = ()\<rparr>"

abbreviation example_runtime :: "int \<Rightarrow> unit runtime" where
  "example_runtime year \<equiv>
     \<lparr>getFullYear = year, config_version = Some (js ''2.0.0''),
      config_siteConfig = example_site,
      nativeFunctionText = (\<lambda>fname. js ''function '' @ fname @ js ''() { [native code] }'')\<rparr>"

abbreviation example_document :: "(nat, unit, nat) app_configuration" where
  "example_document \<equiv> \<lparr>api = 1, site = example_site, environment = 2\<rparr>"

abbreviation example_page :: "(nat, unit, nat) page" where
  "example_page \<equiv>
     \<lparr>form_values = example_document, isLoadingEnv = False, isLoadingConfig = False,
      toasts = [], downloads = []\<rparr>"

abbreviation example_loaded :: "(nat, unit) configuration_file" where
  "example_loaded \<equiv>
     \<lparr>api = 7,
      site = \<lparr>siteName = Some (js ''Loaded''), siteNameTemplate = None, siteAuthor = None,
        twitterHandle = None, navbarItems = [], supports = [],
        footer = [\<lparr>line_value = js ''{{ poweredBy }}''\<rparr>], otherSiteFields = ()\<rparr>\<rparr>"

abbreviation example_table :: "(jsstring \<times> jsstring list) list" where
  "example_table \<equiv>
     [(js ''v1'', [js ''1.0.0'']), (js ''v2'', [js ''2.0.0'', js ''2.1.0'']),
      (js ''latest'', [js ''2.1.0'', js ''2.2.0''])]"

text \<open>Server actions that answer the same whatever they are given.\<close>

abbreviation ProcessConfiguration_ok ::
    "jsstring \<Rightarrow> jsstring \<Rightarrow> (nat, unit) configuration_file action_result" where
  "ProcessConfiguration_ok \<equiv> \<lambda>file_text g. ActionSuccess (js ''Configuration loaded'') example_loaded"

abbreviation ProcessConfiguration_failing ::
    "jsstring \<Rightarrow> jsstring \<Rightarrow> (nat, unit) configuration_file action_result" where
  "ProcessConfiguration_failing \<equiv>
     \<lambda>file_text g. ActionFailure (js ''Failed to parse'') (js ''site: Required'')"

abbreviation ProcessEnvironmentConfig_ok :: "jsstring \<Rightarrow> nat action_result" where
  "ProcessEnvironmentConfig_ok \<equiv> \<lambda>file_text. ActionSuccess (js ''Environment loaded'') 9"

abbreviation ProcessEnvironmentConfig_failing :: "jsstring \<Rightarrow> nat action_result" where
  "ProcessEnvironmentConfig_failing \<equiv>
     \<lambda>file_text. ActionFailure (js ''Invalid file'') (js ''KEY: Required'')"

abbreviation GenerateConfiguration_ok ::
    "(nat, unit, nat) app_configuration \<Rightarrow> blob action_result" where
  "GenerateConfiguration_ok \<equiv> \<lambda>doc. ActionSuccess (js ''Configuration generated'') [0x50, 0x4B]"

abbreviation GenerateConfiguration_failing ::
    "(nat, unit, nat) app_configuration \<Rightarrow> blob action_result" where
  "GenerateConfiguration_failing \<equiv>
     \<lambda>doc. ActionFailure (js ''Failed to generate'') (js ''site.siteName: Required'')"


section \<open>The specification's reading of the two scans\<close>

text \<open>
  The specification describes the footer formatter as the replacement of every
  \<open>{{ key }}\<close> token: two opening braces, white space, a key that is a bare identifier,
  white space, two closing braces. \<open>token_at\<close> reads one token at the head of a text,
  without any backtracking, and gives its key and the text after it.
\<close>

definition token_at :: "jsstring \<Rightarrow> (jsstring \<times> jsstring) option" where
  "token_at s =
     (if prefix [0x7B, 0x7B] s then
        let s2 = dropWhile isWhiteSpace (drop 2 s);
            s4 = dropWhile isWhiteSpace (dropWhile isWordChar s2)
        in if takeWhile isWordChar s2 \<noteq> [] \<and> prefix [0x7D, 0x7D] s4
           then Some (takeWhile isWordChar s2, drop 2 s4) else None
      else None)"

lemma token_at_shorter:
  assumes "token_at s = Some (key, rest)"
  shows "length rest < length s"
proof -
  from assms have
    "rest = drop 2 (dropWhile isWhiteSpace (dropWhile isWordChar (dropWhile isWhiteSpace (drop 2 s))))"
    and "prefix [0x7B, 0x7B] s"
    by (auto simp: token_at_def Let_def split: if_splits)
  moreover have
    "length (dropWhile isWhiteSpace (dropWhile isWordChar (dropWhile isWhiteSpace (drop 2 s))))
       \<le> length (drop 2 s)"
    by (meson length_dropWhile_le order_trans)
  ultimately show ?thesis
    by (cases s; cases "tl s") auto
qed

text \<open>The text is read from the left; a token is replaced by \<open>f key\<close>, anything else is kept.\<close>

function substitute_tokens :: "(jsstring \<Rightarrow> jsstring) \<Rightarrow> jsstring \<Rightarrow> jsstring" where
  "substitute_tokens f [] = []"
| "substitute_tokens f (c # cs) =
     (case token_at (c # cs) of
        Some (key, rest) \<Rightarrow> f key @ substitute_tokens f rest
      | None \<Rightarrow> c # substitute_tokens f cs)"
  by pat_completeness auto
termination
  by (relation "measure (\<lambda>(f, s). length s)") (auto dest: token_at_shorter)

text \<open>
  The specification describes version detection as one scan for a \<open>version:\<close> assignment
  with a semantic-version literal: the word \<open>version:\<close>, white space, an optional quote,
  and three runs of digits separated by dots. \<open>detectVersion\<close> returns the literal of the
  leftmost assignment, or fails with \<open>VersionNotFound\<close>.
\<close>

datatype load_error = VersionNotFound | VersionUnrecognized

definition semver_at :: "jsstring \<Rightarrow> jsstring option" where
  "semver_at s =
     (case dropWhile isDigit s of
        [] \<Rightarrow> None
      | x # s1 \<Rightarrow>
          if takeWhile isDigit s = [] \<or> x \<noteq> 0x2E then None
          else (case dropWhile isDigit s1 of
                  [] \<Rightarrow> None
                | y # s2 \<Rightarrow>
                    if takeWhile isDigit s1 = [] \<or> y \<noteq> 0x2E \<or> takeWhile isDigit s2 = [] then None
                    else Some (takeWhile isDigit s @ [0x2E] @ takeWhile isDigit s1 @ [0x2E]
                                 @ takeWhile isDigit s2)))"

definition skip_quote :: "jsstring \<Rightarrow> jsstring" where
  "skip_quote s = (case s of [] \<Rightarrow> [] | c # cs \<Rightarrow> if isQuote c then cs else c # cs)"

definition version_assignment_at :: "jsstring \<Rightarrow> jsstring option" where
  "version_assignment_at s =
     (if prefix (js ''version:'') s
      then semver_at (skip_quote (dropWhile isWhiteSpace (drop 8 s)))
      else None)"

fun detectVersion :: "jsstring \<Rightarrow> load_error + jsstring" where
  "detectVersion [] = Inl VersionNotFound"
| "detectVersion (c # cs) =
     (case version_assignment_at (c # cs) of
        Some v \<Rightarrow> Inr v
      | None \<Rightarrow> detectVersion cs)"

text \<open>
  The specification describes the site name template as literal replacement of the first
  occurrence of a placeholder.
\<close>

definition replace_first :: "jsstring \<Rightarrow> jsstring \<Rightarrow> jsstring \<Rightarrow> jsstring" where
  "replace_first s pat replacement =
     (case split_first pat s of
        None \<Rightarrow> s
      | Some (before, after) \<Rightarrow> before @ replacement @ after)"


section \<open>Greedy repetition without backtracking\<close>

text \<open>
  In both regular expressions a repeated class is followed by something that cannot
  start with a character of the class, so the search never succeeds on a shorter
  repetition: the first success is the one after the longest repetition.
\<close>

lemma star_first_success:
  assumes "\<And>c cs. p c \<Longrightarrow> g (c # cs) = []"
  shows "concat (map g (star p s)) = g (dropWhile p s)"
  using assms by (induction s) auto

lemma star_head: "\<exists>ys. star p s = dropWhile p s # ys"
  by (induction s) auto

lemma concat_run_Nil: "concat (map (run []) xs) = xs"
  by (induction xs) auto

lemma concat_map_concat_map:
  "concat (map g (concat (map h xs))) = concat (map (\<lambda>x. concat (map g (h x))) xs)"
  by (induction xs) auto

lemma run_Chr:
  "run (Chr x # ns) s = (case s of [] \<Rightarrow> [] | c # cs \<Rightarrow> if c = x then run ns cs else [])"
  by (cases s) auto

lemma run_Star: "run (Star p # ns) s = concat (map (run ns) (star p s))"
  by simp

lemma run_Star_skip:
  assumes "\<And>c cs. p c \<Longrightarrow> run ns (c # cs) = []"
  shows "run (Star p # ns) s = run ns (dropWhile p s)"
  unfolding run_Star using assms by (rule star_first_success)

lemma run_Plus_skip:
  assumes "\<And>c cs. p c \<Longrightarrow> run ns (c # cs) = []"
  shows "run (Plus p # ns) s =
           (case s of [] \<Rightarrow> [] | c # cs \<Rightarrow> if p c then run ns (dropWhile p cs) else [])"
  using star_first_success [of p "run ns", OF assms] by (cases s) auto

lemma run_two_chars:
  "run [Chr a, Chr b] s = (if prefix [a, b] s then [drop 2 s] else [])"
  by (cases s; cases "tl s") (auto simp: run_Chr)

lemma run_literal:
  "run (map Chr lit @ ns) s = (if prefix lit s then run ns (drop (length lit) s) else [])"
proof (induction lit arbitrary: s)
  case Nil
  show ?case by simp
next
  case (Cons x lit)
  show ?case
  proof (cases s)
    case Nil
    then show ?thesis by simp
  next
    case (Cons c cs)
    have "run (map Chr (x # lit) @ ns) (c # cs) = (if c = x then run (map Chr lit @ ns) cs else [])"
      by simp
    then show ?thesis using Cons Cons.IH [of cs] by simp
  qed
qed

lemma take_length_dropWhile:
  "take (length s - length (dropWhile p s)) s = takeWhile p s"
  by (induction s) (auto simp: Suc_diff_le length_dropWhile_le)

text \<open>The character classes and delimiters involved exclude one another.\<close>

lemma ws_not_word: "isWhiteSpace c \<Longrightarrow> \<not> isWordChar c"
  unfolding isWhiteSpace_def isWordChar_def isDigit_def
  by (auto simp: word_le_nat_alt)

lemma ws_not_rbrace: "isWhiteSpace c \<Longrightarrow> c \<noteq> 0x7D"
  unfolding isWhiteSpace_def by (auto simp: word_le_nat_alt)

lemma word_not_rbrace: "isWordChar c \<Longrightarrow> c \<noteq> 0x7D"
  unfolding isWordChar_def isDigit_def by (auto simp: word_le_nat_alt)

lemma digit_not_dot: "isDigit c \<Longrightarrow> c \<noteq> 0x2E"
  unfolding isDigit_def by (auto simp: word_le_nat_alt)

lemma ws_not_digit: "isWhiteSpace c \<Longrightarrow> \<not> isDigit c"
  using ws_not_word by (auto simp: isWordChar_def)

lemma ws_not_quote: "isWhiteSpace c \<Longrightarrow> \<not> isQuote c"
  unfolding isWhiteSpace_def isQuote_def by (auto simp: word_le_nat_alt)

lemma quote_not_digit: "isQuote c \<Longrightarrow> \<not> isDigit c"
  unfolding isDigit_def isQuote_def by (auto simp: word_le_nat_alt)



section \<open>The footer formatter replaces tokens\<close>

lemma run_after_footer:
  "run (re_after footer_token) s =
     (if prefix [0x7D, 0x7D] (dropWhile isWhiteSpace s)
      then [drop 2 (dropWhile isWhiteSpace s)] else [])"
proof -
  have "run (Star isWhiteSpace # [Chr 0x7D, Chr 0x7D]) s
          = run [Chr 0x7D, Chr 0x7D] (dropWhile isWhiteSpace s)"
    by (rule run_Star_skip) (auto simp: run_Chr dest: ws_not_rbrace)
  then show ?thesis
    by (simp only: footer_token_def regex.simps run_two_chars)
qed

lemma group_matches_footer:
  "group_matches footer_token t =
     (if takeWhile isWordChar t \<noteq> []
         \<and> prefix [0x7D, 0x7D] (dropWhile isWhiteSpace (dropWhile isWordChar t))
      then [(takeWhile isWordChar t, drop 2 (dropWhile isWhiteSpace (dropWhile isWordChar t)))]
      else [])"
proof (cases t)
  case Nil
  then show ?thesis by (simp add: group_matches_def footer_token_def)
next
  case (Cons c cs)
  let ?H = "\<lambda>s2. map (\<lambda>s3. (take (length t - length s2) t, s3))
                        (run (re_after footer_token) s2)"
  show ?thesis
  proof (cases "isWordChar c")
    case False
    with Cons show ?thesis by (simp add: group_matches_def footer_token_def)
  next
    case True
    have fail: "\<And>d ds. isWordChar d \<Longrightarrow> ?H (d # ds) = []"
      using ws_not_word word_not_rbrace by (auto simp: run_after_footer)
    have "group_matches footer_token t = concat (map ?H (star isWordChar cs))"
      using Cons True by (simp add: group_matches_def footer_token_def concat_run_Nil)
    also have "\<dots> = ?H (dropWhile isWordChar cs)"
      using fail by (rule star_first_success)
    finally have eq: "group_matches footer_token t = ?H (dropWhile isWordChar cs)" .
    have tk: "take (length t - length (dropWhile isWordChar cs)) t = takeWhile isWordChar t"
      using take_length_dropWhile [of t isWordChar] Cons True by simp
    show ?thesis
      unfolding eq using Cons True tk by (simp add: run_after_footer)
  qed
qed

lemma match_at_footer_token: "match_at footer_token s = token_at s"
proof (cases "prefix [0x7B, 0x7B] s")
  case False
  then have "run (re_before footer_token) s = []"
    by (cases s; cases "tl s") (auto simp: footer_token_def run_Chr)
  with False show ?thesis by (simp add: match_at_def token_at_def)
next
  case True
  have fail: "\<And>c cs. isWhiteSpace c \<Longrightarrow> group_matches footer_token (c # cs) = []"
    unfolding group_matches_footer by (simp add: ws_not_word)
  from True have "run (re_before footer_token) s = star isWhiteSpace (drop 2 s)"
    by (cases s; cases "tl s") (auto simp: footer_token_def run_Chr concat_run_Nil)
  then have "concat (map (group_matches footer_token) (run (re_before footer_token) s))
               = group_matches footer_token (dropWhile isWhiteSpace (drop 2 s))"
    using star_first_success [of isWhiteSpace "group_matches footer_token", OF fail] by simp
  then show ?thesis
    using True unfolding match_at_def token_at_def group_matches_footer
    by (simp add: Let_def)
qed

lemma token_at_Nil: "token_at [] = None"
  by (simp add: token_at_def)

lemma replace_global_footer_token:
  "String_replace_global footer_token f s = substitute_tokens f s"
proof (induction f s rule: substitute_tokens.induct)
  case (1 f)
  show ?case
    by (subst String_replace_global.simps) (simp add: match_at_footer_token token_at_Nil)
next
  case (2 f c cs)
  show ?case
  proof (cases "token_at (c # cs)")
    case None
    with 2 show ?thesis
      by (subst String_replace_global.simps) (simp add: match_at_footer_token)
  next
    case (Some m)
    obtain key rest where m: "m = (key, rest)" by (cases m)
    with Some 2 token_at_shorter [of "c # cs" key rest] show ?thesis
      by (subst String_replace_global.simps) (simp add: match_at_footer_token)
  qed
qed

text \<open>What the scan does, said without the scan: text without a brace is kept.\<close>

lemma substitute_tokens_plain:
  "0x7B \<notin> set plain \<Longrightarrow> substitute_tokens f plain = plain"
  by (induction plain) (auto simp: token_at_def)

text \<open>A well-formed token is read as one, whatever follows it.\<close>

lemma token_at_token:
  assumes w1: "list_all isWhiteSpace w1" and w2: "list_all isWhiteSpace w2"
    and key: "key \<noteq> []" "list_all isWordChar key"
  shows "token_at (0x7B # 0x7B # w1 @ key @ w2 @ 0x7D # 0x7D # rest) = Some (key, rest)"
proof -
  obtain k ks where k: "key = k # ks" using key(1) by (cases key) auto
  have kw: "isWordChar k" using key(2) k by simp
  have d1: "dropWhile isWhiteSpace (w1 @ key @ w2 @ 0x7D # 0x7D # rest)
              = key @ w2 @ 0x7D # 0x7D # rest"
    using w1 kw ws_not_word k by (auto simp: list_all_iff dropWhile_append)
  have nw: "\<not> isWordChar (hd (w2 @ 0x7D # 0x7D # rest))"
    using w2 ws_not_word word_not_rbrace by (cases w2) auto
  have t2: "takeWhile isWordChar (key @ w2 @ 0x7D # 0x7D # rest) = key"
    using key(2) nw by (cases w2) (auto simp: takeWhile_append list_all_iff takeWhile_tail)
  have d2: "dropWhile isWordChar (key @ w2 @ 0x7D # 0x7D # rest) = w2 @ 0x7D # 0x7D # rest"
    using key(2) nw by (cases w2) (auto simp: dropWhile_append list_all_iff)
  have d3: "dropWhile isWhiteSpace (w2 @ 0x7D # 0x7D # rest) = 0x7D # 0x7D # rest"
    using w2 ws_not_rbrace by (auto simp: dropWhile_append list_all_iff)
  show ?thesis
    using key(1) by (simp add: token_at_def Let_def d1 t2 d2 d3)
qed

lemma substitute_tokens_token:
  assumes "0x7B \<notin> set plain" "list_all isWhiteSpace w1" "list_all isWhiteSpace w2"
    "key \<noteq> []" "list_all isWordChar key"
  shows "substitute_tokens f (plain @ [0x7B, 0x7B] @ w1 @ key @ w2 @ [0x7D, 0x7D] @ rest)
           = plain @ f key @ substitute_tokens f rest"
  using assms(1)
proof (induction plain)
  case Nil
  have "token_at (0x7B # 0x7B # w1 @ key @ w2 @ 0x7D # 0x7D # rest) = Some (key, rest)"
    using token_at_token [OF assms(2-5), of rest] .
  then show ?case by simp
next
  case (Cons c plain)
  then have "token_at (c # plain @ [0x7B, 0x7B] @ w1 @ key @ w2 @ [0x7D, 0x7D] @ rest) = None"
    by (auto simp: token_at_def)
  with Cons show ?case by simp
qed

text \<open>The values of the eight keys of the lookup table.\<close>

lemma replacer_table:
  "map (replacer rt data)
     [js ''year'', js ''repository'', js ''poweredBy'', js ''author'', js ''version'',
      js ''siteName'', js ''handle'', js ''creator''] =
     [Number_toString (getFullYear rt),
      js ''[Source Code](https://github.com/mbaharip/next-gdrive-index)'',
      js ''Powered by [next-gdrive-index v'' @ template_part (config_version rt)
        @ js ''](https://github.com/mbaharip/next-gdrive-index)'',
      nullish_or (siteAuthor data) (js ''mbaharip''),
      nullish_or (config_version rt) (js ''0.0.0''),
      nullish_or (siteName data) (js ''next-gdrive-index''),
      nullish_or (twitterHandle data) (js ''@__mbaharip__''),
      js ''mbaharip'']"
  by (simp add: replacer_def formatMap_get_def formatMap_def ToString_def js_def)

lemma footer_example:
  "getFullYear rt = 2024 \<Longrightarrow>
   substitute_tokens (replacer rt data)
     (Array_join [0x0A] (map (\<lambda>item. String_trim (line_value item))
        [\<lparr>line_value = js ''Built by {{ creator }}''\<rparr>, \<lparr>line_value = js ''{{ year }}''\<rparr>]))
     = js ''Built by mbaharip'' @ [0x0A] @ js ''2024''"
  by (simp add: js_def String_trim_def isWhiteSpace_def token_at_def isWordChar_def isDigit_def
        replacer_def formatMap_get_def formatMap_def ToString_def Number_toString_def
        digits_of.simps)


text \<open>
  What trimming does, said without the two passes of \<open>String_trim\<close>: every text is white
  space, its trimmed text, and white space again; the trimmed text neither starts nor ends
  with white space; so a text that is padded with white space on both sides is trimmed to
  what lies between.
\<close>

lemma String_trim_padded:
  assumes "list_all isWhiteSpace lead" "list_all isWhiteSpace trail"
    "body = [] \<or> (\<not> isWhiteSpace (hd body) \<and> \<not> isWhiteSpace (last body))"
  shows "String_trim (lead @ body @ trail) = body"
proof (cases "body = []")
  case True
  have "\<forall>x \<in> set (lead @ trail). isWhiteSpace x"
    using assms(1,2) by (auto simp: list_all_iff)
  then have d: "dropWhile isWhiteSpace (lead @ trail) = []"
    by (simp only: dropWhile_eq_Nil_conv)
  have e: "lead @ body @ trail = lead @ trail"
    using True by simp
  show ?thesis
    unfolding String_trim_def e d using True by simp
next
  case False
  with assms(3) have h: "\<not> isWhiteSpace (hd body)" and l: "\<not> isWhiteSpace (last body)"
    by blast+
  have "dropWhile isWhiteSpace (lead @ body @ trail) = body @ trail"
    using assms(1) False h by (cases body) (auto simp: list_all_iff dropWhile_append)
  moreover have "dropWhile isWhiteSpace (rev trail @ rev body) = rev body"
  proof -
    have "rev body \<noteq> []" "\<not> isWhiteSpace (hd (rev body))"
      using False l by (simp_all add: hd_rev)
    then show ?thesis
      using assms(2) by (cases "rev body") (auto simp: list_all_iff dropWhile_append)
  qed
  ultimately show ?thesis by (simp add: String_trim_def)
qed

lemma rev_split_while:
  "xs = rev (dropWhile P (rev xs)) @ rev (takeWhile P (rev xs))"
  by (metis rev_append rev_rev_ident takeWhile_dropWhile_id)

lemma String_trim_decomposes:
  "\<exists>lead trail. s = lead @ String_trim s @ trail
      \<and> list_all isWhiteSpace lead \<and> list_all isWhiteSpace trail"
proof -
  let ?t = "dropWhile isWhiteSpace s"
  have t: "?t = String_trim s @ rev (takeWhile isWhiteSpace (rev ?t))"
    unfolding String_trim_def by (rule rev_split_while)
  have "s = takeWhile isWhiteSpace s @ ?t" by simp
  with t have "s = takeWhile isWhiteSpace s @ String_trim s @ rev (takeWhile isWhiteSpace (rev ?t))"
    by metis
  moreover have "list_all isWhiteSpace (takeWhile isWhiteSpace s)"
    "list_all isWhiteSpace (rev (takeWhile isWhiteSpace (rev ?t)))"
    by (auto simp: list_all_iff dest: set_takeWhileD)
  ultimately show ?thesis by blast
qed

lemma String_trim_ends:
  "String_trim s = []
   \<or> (\<not> isWhiteSpace (hd (String_trim s)) \<and> \<not> isWhiteSpace (last (String_trim s)))"
proof (cases "String_trim s = []")
  case True
  then show ?thesis by blast
next
  case False
  let ?t = "dropWhile isWhiteSpace s"
  let ?u = "dropWhile isWhiteSpace (rev ?t)"
  have u: "?u \<noteq> []" using False by (simp add: String_trim_def)
  then have "\<not> isWhiteSpace (hd ?u)" by (rule hd_dropWhile)
  then have l: "\<not> isWhiteSpace (last (String_trim s))"
    using u by (simp add: String_trim_def last_rev)
  have tn: "?t \<noteq> []"
  proof
    assume "?t = []"
    then have "?u = []" by (simp only: rev.simps dropWhile.simps)
    with u show False by blast
  qed
  then have ht: "\<not> isWhiteSpace (hd ?t)" by (rule hd_dropWhile)
  have "?t = String_trim s @ rev (takeWhile isWhiteSpace (rev ?t))"
    unfolding String_trim_def by (rule rev_split_while)
  then have "hd ?t = hd (String_trim s)"
    using False by (metis hd_append2)
  with ht l False show ?thesis by simp
qed

lemma trims_each_line:
  assumes "list_all (\<lambda>(lead, body, trail). list_all isWhiteSpace lead \<and> list_all isWhiteSpace trail
              \<and> (body = [] \<or> (\<not> isWhiteSpace (hd body) \<and> \<not> isWhiteSpace (last body)))) padded"
  shows "map (\<lambda>item. String_trim (line_value item))
           (map (\<lambda>(lead, body, trail). \<lparr>line_value = lead @ body @ trail\<rparr>) padded)
         = map (\<lambda>(lead, body, trail). body) padded"
  using assms
proof (induction padded)
  case Nil
  show ?case by simp
next
  case (Cons p padded)
  obtain lead body trail where p: "p = (lead, body, trail)" by (cases p)
  have "String_trim (lead @ body @ trail) = body"
    using Cons.prems p by (intro String_trim_padded) simp_all
  with Cons p show ?case by simp
qed

lemma footer_example_padded:
  "getFullYear rt = 2024 \<Longrightarrow>
   substitute_tokens (replacer rt data)
     (Array_join [0x0A] (map (\<lambda>item. String_trim (line_value item))
        [\<lparr>line_value = js ''  Built by {{ creator }} ''\<rparr>,
         \<lparr>line_value = [0x09] @ js ''{{ year }}'' @ [0x0D, 0x0A]\<rparr>]))
     = js ''Built by mbaharip'' @ [0x0A] @ js ''2024''"
  by (simp add: js_def String_trim_def isWhiteSpace_def token_at_def isWordChar_def isDigit_def
        replacer_def formatMap_get_def formatMap_def ToString_def Number_toString_def
        digits_of.simps)

text \<open>
  Claim C1. For every list of footer lines and every site settings, \<open>formatFooterContent\<close>
  trims each line, joins the trimmed lines with a newline and replaces every
  \<open>{{ key }}\<close> token, white space inside the braces ignored, by the value of the key in
  the lookup table: the result of the regular-expression replacement of the code is the
  left-to-right substitution of tokens in the joined text; the eight keys have the values
  of the table; text without an opening brace is kept, and a token after such text is
  replaced by the value of its key. With the year 2024, the lines
  \<open>Built by {{ creator }}\<close> and \<open>{{ year }}\<close> give \<open>Built by mbaharip\<close>, a newline and
  \<open>2024\<close>. Trimming removes exactly the white space at the two ends of a line: a line
  that is white space, a body and white space, where the body is empty or neither starts
  nor ends with white space, is trimmed to the body, and every line is of that form with
  its trimmed text as the body; lines padded in this way are formatted as their bodies
  are, and the two lines of the example give the same text when they are padded with
  blanks, a tab, a carriage return and a newline. Joining puts the separator between
  consecutive lines and nowhere else.
\<close>

theorem formatFooterContent_substitutes_tokens:
  "formatFooterContent rt text_items siteConfig =
     substitute_tokens (replacer rt (nullish_or siteConfig (config_siteConfig rt)))
       (Array_join [0x0A] (map (\<lambda>item. String_trim (line_value item)) text_items))
   \<and> map (replacer rt data)
       [js ''year'', js ''repository'', js ''poweredBy'', js ''author'', js ''version'',
        js ''siteName'', js ''handle'', js ''creator''] =
       [Number_toString (getFullYear rt),
        js ''[Source Code](https://github.com/mbaharip/next-gdrive-index)'',
        js ''Powered by [next-gdrive-index v'' @ template_part (config_version rt)
          @ js ''](https://github.com/mbaharip/next-gdrive-index)'',
        nullish_or (siteAuthor data) (js ''mbaharip''),
        nullish_or (config_version rt) (js ''0.0.0''),
        nullish_or (siteName data) (js ''next-gdrive-index''),
        nullish_or (twitterHandle data) (js ''@__mbaharip__''),
        js ''mbaharip'']
   \<and> (0x7B \<notin> set plain \<longrightarrow> substitute_tokens f plain = plain)
   \<and> (0x7B \<notin> set plain \<and> list_all isWhiteSpace w1 \<and> list_all isWhiteSpace w2
        \<and> key \<noteq> [] \<and> list_all isWordChar key \<longrightarrow>
      substitute_tokens f (plain @ [0x7B, 0x7B] @ w1 @ key @ w2 @ [0x7D, 0x7D] @ rest)
        = plain @ f key @ substitute_tokens f rest)
   \<and> (getFullYear rt = 2024 \<longrightarrow>
      formatFooterContent rt
        [\<lparr>line_value = js ''Built by {{ creator }}''\<rparr>, \<lparr>line_value = js ''{{ year }}''\<rparr>]
        siteConfig
        = js ''Built by mbaharip'' @ [0x0A] @ js ''2024'')
   \<and> (list_all isWhiteSpace lead \<and> list_all isWhiteSpace trail
        \<and> (body = [] \<or> (\<not> isWhiteSpace (hd body) \<and> \<not> isWhiteSpace (last body))) \<longrightarrow>
      String_trim (lead @ body @ trail) = body)
   \<and> (\<exists>lead' trail'. s = lead' @ String_trim s @ trail'
        \<and> list_all isWhiteSpace lead' \<and> list_all isWhiteSpace trail')
   \<and> (String_trim s = []
        \<or> (\<not> isWhiteSpace (hd (String_trim s)) \<and> \<not> isWhiteSpace (last (String_trim s))))
   \<and> (list_all (\<lambda>(lead, body, trail). list_all isWhiteSpace lead \<and> list_all isWhiteSpace trail
              \<and> (body = [] \<or> (\<not> isWhiteSpace (hd body) \<and> \<not> isWhiteSpace (last body))))
          padded \<longrightarrow>
      formatFooterContent rt
        (map (\<lambda>(lead, body, trail). \<lparr>line_value = lead @ body @ trail\<rparr>) padded) siteConfig
        = substitute_tokens (replacer rt (nullish_or siteConfig (config_siteConfig rt)))
            (Array_join [0x0A] (map (\<lambda>(lead, body, trail). body) padded)))
   \<and> Array_join sep [] = [] \<and> Array_join sep [a] = a
   \<and> Array_join sep (a # b # cs) = a @ sep @ Array_join sep (b # cs)
   \<and> (getFullYear rt = 2024 \<longrightarrow>
      formatFooterContent rt
        [\<lparr>line_value = js ''  Built by {{ creator }} ''\<rparr>,
         \<lparr>line_value = [0x09] @ js ''{{ year }}'' @ [0x0D, 0x0A]\<rparr>]
        siteConfig
        = js ''Built by mbaharip'' @ [0x0A] @ js ''2024'')"
proof -
  have refine: "formatFooterContent rt items siteConfig =
     substitute_tokens (replacer rt (nullish_or siteConfig (config_siteConfig rt)))
       (Array_join [0x0A] (map (\<lambda>item. String_trim (line_value item)) items))" for items
    by (simp add: formatFooterContent_def Let_def replace_global_footer_token)
  have table: "map (replacer rt data)
       [js ''year'', js ''repository'', js ''poweredBy'', js ''author'', js ''version'',
        js ''siteName'', js ''handle'', js ''creator''] =
       [Number_toString (getFullYear rt),
        js ''[Source Code](https://github.com/mbaharip/next-gdrive-index)'',
        js ''Powered by [next-gdrive-index v'' @ template_part (config_version rt)
          @ js ''](https://github.com/mbaharip/next-gdrive-index)'',
        nullish_or (siteAuthor data) (js ''mbaharip''),
        nullish_or (config_version rt) (js ''0.0.0''),
        nullish_or (siteName data) (js ''next-gdrive-index''),
        nullish_or (twitterHandle data) (js ''@__mbaharip__''),
        js ''mbaharip'']"
    by (rule replacer_table)
  have plain: "0x7B \<notin> set plain \<longrightarrow> substitute_tokens f plain = plain"
    using substitute_tokens_plain by blast
  have token: "0x7B \<notin> set plain \<and> list_all isWhiteSpace w1 \<and> list_all isWhiteSpace w2
        \<and> key \<noteq> [] \<and> list_all isWordChar key \<longrightarrow>
      substitute_tokens f (plain @ [0x7B, 0x7B] @ w1 @ key @ w2 @ [0x7D, 0x7D] @ rest)
        = plain @ f key @ substitute_tokens f rest"
    using substitute_tokens_token by blast
  have example: "getFullYear rt = 2024 \<longrightarrow>
      formatFooterContent rt
        [\<lparr>line_value = js ''Built by {{ creator }}''\<rparr>, \<lparr>line_value = js ''{{ year }}''\<rparr>]
        siteConfig
        = js ''Built by mbaharip'' @ [0x0A] @ js ''2024''"
    unfolding refine using footer_example by blast
  have trim: "list_all isWhiteSpace lead \<and> list_all isWhiteSpace trail
        \<and> (body = [] \<or> (\<not> isWhiteSpace (hd body) \<and> \<not> isWhiteSpace (last body))) \<longrightarrow>
      String_trim (lead @ body @ trail) = body"
    using String_trim_padded by blast
  have decomposes: "\<exists>lead' trail'. s = lead' @ String_trim s @ trail'
        \<and> list_all isWhiteSpace lead' \<and> list_all isWhiteSpace trail'"
    by (rule String_trim_decomposes)
  have ends: "String_trim s = []
        \<or> (\<not> isWhiteSpace (hd (String_trim s)) \<and> \<not> isWhiteSpace (last (String_trim s)))"
    by (rule String_trim_ends)
  have lines: "list_all (\<lambda>(lead, body, trail). list_all isWhiteSpace lead \<and> list_all isWhiteSpace trail
              \<and> (body = [] \<or> (\<not> isWhiteSpace (hd body) \<and> \<not> isWhiteSpace (last body))))
          padded \<longrightarrow>
      formatFooterContent rt
        (map (\<lambda>(lead, body, trail). \<lparr>line_value = lead @ body @ trail\<rparr>) padded) siteConfig
        = substitute_tokens (replacer rt (nullish_or siteConfig (config_siteConfig rt)))
            (Array_join [0x0A] (map (\<lambda>(lead, body, trail). body) padded))"
  proof
    assume h: "list_all (\<lambda>(lead, body, trail). list_all isWhiteSpace lead \<and> list_all isWhiteSpace trail
              \<and> (body = [] \<or> (\<not> isWhiteSpace (hd body) \<and> \<not> isWhiteSpace (last body))))
          padded"
    show "formatFooterContent rt
        (map (\<lambda>(lead, body, trail). \<lparr>line_value = lead @ body @ trail\<rparr>) padded) siteConfig
        = substitute_tokens (replacer rt (nullish_or siteConfig (config_siteConfig rt)))
            (Array_join [0x0A] (map (\<lambda>(lead, body, trail). body) padded))"
      unfolding refine trims_each_line [OF h] ..
  qed
  have join: "Array_join sep [] = []" "Array_join sep [a] = a"
    "Array_join sep (a # b # cs) = a @ sep @ Array_join sep (b # cs)"
    by simp_all
  have padded_example: "getFullYear rt = 2024 \<longrightarrow>
      formatFooterContent rt
        [\<lparr>line_value = js ''  Built by {{ creator }} ''\<rparr>,
         \<lparr>line_value = [0x09] @ js ''{{ year }}'' @ [0x0D, 0x0A]\<rparr>]
        siteConfig
        = js ''Built by mbaharip'' @ [0x0A] @ js ''2024''"
    unfolding refine using footer_example_padded by blast
  from refine table plain token example trim decomposes ends lines join padded_example
  show ?thesis by (intro conjI)
qed

text \<open>
  The theorem at a concrete runtime of the year 2024, with the lines of the example as
  they are and padded with white space; its token law at the text \<open>a {{ b }} c\<close> with a
  replacer that puts the key in angle brackets; its trimming law at a text with blanks on
  both sides and one inside, where a trimming that did nothing would give another text.
\<close>

theorem formatFooterContent_substitutes_tokens_witness:
  "formatFooterContent (example_runtime 2024)
     [\<lparr>line_value = js ''Built by {{ creator }}''\<rparr>, \<lparr>line_value = js ''{{ year }}''\<rparr>] None
     = js ''Built by mbaharip'' @ [0x0A] @ js ''2024''
   \<and> substitute_tokens (\<lambda>key. js ''<'' @ key @ js ''>'')
       (js ''a '' @ [0x7B, 0x7B] @ js '' '' @ js ''b'' @ js '' '' @ [0x7D, 0x7D] @ js '' c'')
       = js ''a <b> c''
   \<and> formatFooterContent (example_runtime 2024)
       [\<lparr>line_value = js ''  Built by {{ creator }} ''\<rparr>,
        \<lparr>line_value = [0x09] @ js ''{{ year }}'' @ [0x0D, 0x0A]\<rparr>] None
     = js ''Built by mbaharip'' @ [0x0A] @ js ''2024''
   \<and> String_trim (js ''  a b  '') = js ''a b''
   \<and> String_trim (js ''  a b  '') \<noteq> js ''  a b  ''
   \<and> formatFooterContent (example_runtime 2024)
       [\<lparr>line_value = js '' plain ''\<rparr>, \<lparr>line_value = js ''   ''\<rparr>,
        \<lparr>line_value = js ''text''\<rparr>] None
     = js ''plain'' @ [0x0A] @ [0x0A] @ js ''text''"
proof -
  let ?f = "\<lambda>key. js ''<'' @ key @ js ''>''"
  note T = formatFooterContent_substitutes_tokens
    [where rt = "example_runtime 2024" and siteConfig = None and f = ?f and key = "js ''b''"
       and ?w1.0 = "js '' ''" and ?w2.0 = "js '' ''"]
  have year: "getFullYear (example_runtime 2024) = 2024" by simp
  have plain1: "0x7B \<notin> set (js ''a '')" and plain2: "0x7B \<notin> set (js '' c'')"
    by (simp_all add: js_def)
  have ws: "list_all isWhiteSpace (js '' '')"
    by (simp add: js_def isWhiteSpace_def)
  have key: "js ''b'' \<noteq> []" "list_all isWordChar (js ''b'')"
    by (simp_all add: js_def isWordChar_def)
  have "substitute_tokens ?f
          (js ''a '' @ [0x7B, 0x7B] @ js '' '' @ js ''b'' @ js '' '' @ [0x7D, 0x7D] @ js '' c'')
        = js ''a '' @ ?f (js ''b'') @ substitute_tokens ?f (js '' c'')"
    using T [where plain = "js ''a ''" and rest = "js '' c''"] plain1 ws key by blast
  moreover have "substitute_tokens ?f (js '' c'') = js '' c''"
    using T [where plain = "js '' c''"] plain2 by blast
  moreover have "js ''a '' @ ?f (js ''b'') @ js '' c'' = js ''a <b> c''"
    by (simp add: js_def)
  ultimately have law: "substitute_tokens ?f
          (js ''a '' @ [0x7B, 0x7B] @ js '' '' @ js ''b'' @ js '' '' @ [0x7D, 0x7D] @ js '' c'')
        = js ''a <b> c''"
    by (simp only:)
  have example: "formatFooterContent (example_runtime 2024)
          [\<lparr>line_value = js ''Built by {{ creator }}''\<rparr>, \<lparr>line_value = js ''{{ year }}''\<rparr>] None
        = js ''Built by mbaharip'' @ [0x0A] @ js ''2024''"
    using T year by blast
  have padded: "formatFooterContent (example_runtime 2024)
       [\<lparr>line_value = js ''  Built by {{ creator }} ''\<rparr>,
        \<lparr>line_value = [0x09] @ js ''{{ year }}'' @ [0x0D, 0x0A]\<rparr>] None
     = js ''Built by mbaharip'' @ [0x0A] @ js ''2024''"
    using T year by blast
  have blanks: "list_all isWhiteSpace (js ''  '')"
    and body: "\<not> isWhiteSpace (hd (js ''a b''))" "\<not> isWhiteSpace (last (js ''a b''))"
    by (simp_all add: js_def isWhiteSpace_def)
  have "String_trim (js ''  '' @ js ''a b'' @ js ''  '') = js ''a b''"
    using T [where lead = "js ''  ''" and body = "js ''a b''" and trail = "js ''  ''"] blanks body
    by blast
  moreover have "js ''  '' @ js ''a b'' @ js ''  '' = js ''  a b  ''"
    by (simp add: js_def)
  ultimately have trim: "String_trim (js ''  a b  '') = js ''a b''"
    by (simp only:)
  have differs: "String_trim (js ''  a b  '') \<noteq> js ''  a b  ''"
    unfolding trim by (simp add: js_def)
  let ?padded = "[(js '' '', js ''plain'', js '' ''), (js ''   '', [], []),
                  ([], js ''text'', [])]"
  have ok: "list_all (\<lambda>(lead, body, trail). list_all isWhiteSpace lead \<and> list_all isWhiteSpace trail
              \<and> (body = [] \<or> (\<not> isWhiteSpace (hd body) \<and> \<not> isWhiteSpace (last body))))
          ?padded"
    by (simp add: js_def isWhiteSpace_def)
  have "formatFooterContent (example_runtime 2024)
        (map (\<lambda>(lead, body, trail). \<lparr>line_value = lead @ body @ trail\<rparr>) ?padded) None
        = substitute_tokens (replacer (example_runtime 2024)
              (nullish_or None (config_siteConfig (example_runtime 2024))))
            (Array_join [0x0A] (map (\<lambda>(lead, body, trail). body) ?padded))"
    using T [where padded = ?padded] ok by blast
  moreover have "map (\<lambda>(lead, body, trail). \<lparr>line_value = lead @ body @ trail\<rparr>) ?padded
      = [\<lparr>line_value = js '' plain ''\<rparr>, \<lparr>line_value = js ''   ''\<rparr>,
         \<lparr>line_value = js ''text''\<rparr>]"
    by (simp add: js_def)
  moreover have "Array_join [0x0A] (map (\<lambda>(lead, body, trail). body) ?padded)
      = js ''plain'' @ [0x0A] @ [0x0A] @ js ''text''"
    by simp
  moreover have "0x7B \<notin> set (js ''plain'' @ [0x0A] @ [0x0A] @ js ''text'')"
    by (simp add: js_def)
  then have "substitute_tokens (replacer (example_runtime 2024)
              (nullish_or None (config_siteConfig (example_runtime 2024))))
            (js ''plain'' @ [0x0A] @ [0x0A] @ js ''text'')
          = js ''plain'' @ [0x0A] @ [0x0A] @ js ''text''"
    using formatFooterContent_substitutes_tokens
      [where plain = "js ''plain'' @ [0x0A] @ [0x0A] @ js ''text''"
         and f = "replacer (example_runtime 2024)
              (nullish_or None (config_siteConfig (example_runtime 2024)))"]
    by blast
  ultimately have lines: "formatFooterContent (example_runtime 2024)
       [\<lparr>line_value = js '' plain ''\<rparr>, \<lparr>line_value = js ''   ''\<rparr>,
        \<lparr>line_value = js ''text''\<rparr>] None
     = js ''plain'' @ [0x0A] @ [0x0A] @ js ''text''"
    by (simp only:)
  from example law padded trim differs lines show ?thesis by (intro conjI)
qed

section \<open>Version detection finds the leftmost assignment\<close>

lemma Plus_digit_as_dropWhile:
  assumes "\<And>c cs. isDigit c \<Longrightarrow> run ns (c # cs) = []"
  shows "run (Plus isDigit # ns) s =
           (if takeWhile isDigit s = [] then [] else run ns (dropWhile isDigit s))"
proof -
  have "run (Plus isDigit # ns) s =
          (case s of [] \<Rightarrow> [] | c # cs \<Rightarrow> if isDigit c then run ns (dropWhile isDigit cs) else [])"
    using assms by (rule run_Plus_skip)
  then show ?thesis by (cases s) (simp_all del: run.simps)
qed

lemma run_Chr_dot_digit: "isDigit c \<Longrightarrow> run (Chr 0x2E # ns) (c # cs) = []"
  using digit_not_dot by simp


lemma run_semver:
  "run (re_group version_literal) s =
     (case dropWhile isDigit s of
        [] \<Rightarrow> []
      | x # s1 \<Rightarrow>
          if takeWhile isDigit s = [] \<or> x \<noteq> 0x2E then []
          else (case dropWhile isDigit s1 of
                  [] \<Rightarrow> []
                | y # s2 \<Rightarrow>
                    if takeWhile isDigit s1 = [] \<or> y \<noteq> 0x2E \<or> takeWhile isDigit s2 = [] then []
                    else star isDigit (tl s2)))"
proof -
  have last: "run [Plus isDigit] t = (if takeWhile isDigit t = [] then [] else star isDigit (tl t))" for t
    by (cases t) (auto simp: concat_run_Nil)
  have mid: "run (Chr 0x2E # Plus isDigit # ns) t =
      (case t of [] \<Rightarrow> [] | x # t1 \<Rightarrow> if x \<noteq> 0x2E then [] else run (Plus isDigit # ns) t1)" for ns t
    by (cases t) (simp_all del: run.simps add: run_Chr)
  have p2: "run [Plus isDigit, Chr 0x2E, Plus isDigit] t =
      (if takeWhile isDigit t = [] then [] else run [Chr 0x2E, Plus isDigit] (dropWhile isDigit t))" for t
    by (rule Plus_digit_as_dropWhile) (rule run_Chr_dot_digit)
  have p1: "run [Plus isDigit, Chr 0x2E, Plus isDigit, Chr 0x2E, Plus isDigit] t =
      (if takeWhile isDigit t = [] then []
       else run [Chr 0x2E, Plus isDigit, Chr 0x2E, Plus isDigit] (dropWhile isDigit t))" for t
    by (rule Plus_digit_as_dropWhile) (rule run_Chr_dot_digit)
  show ?thesis
    unfolding version_literal_def regex.simps p1 mid p2 last
    by (simp del: dropWhile_eq_Nil_conv split: list.split)
qed


lemma group_matches_version_first:
  "(case group_matches version_literal u of [] \<Rightarrow> None | m # _ \<Rightarrow> Some (fst m)) = semver_at u"
proof -
  have opt: "run [Opt isQuote] t \<noteq> []" for t
    by (cases t) auto
  have first: "(case concat (map (\<lambda>s2. map (\<lambda>s3. (take (length u - length s2) u, s3)) (run [Opt isQuote] s2))
                         (star isDigit t)) of [] \<Rightarrow> None | m # _ \<Rightarrow> Some (fst m))
               = Some (take (length u - length (dropWhile isDigit t)) u)" for t
  proof -
    obtain ys where ys: "star isDigit t = dropWhile isDigit t # ys"
      using star_head by blast
    obtain z zs where z: "run [Opt isQuote] (dropWhile isDigit t) = z # zs"
      using opt [of "dropWhile isDigit t"] by (cases "run [Opt isQuote] (dropWhile isDigit t)") auto
    show ?thesis unfolding ys by (simp add: z del: run.simps)
  qed
  show ?thesis
  proof (cases "semver_at u")
    case None
    then have "run (re_group version_literal) u = []"
      unfolding run_semver semver_at_def
      by (auto simp del: dropWhile_eq_Nil_conv split: list.splits if_splits)
    then show ?thesis using None by (simp add: group_matches_def)
  next
    case (Some v)
    then obtain s1 s2 where
      u: "dropWhile isDigit u = 0x2E # s1" "takeWhile isDigit u \<noteq> []"
      and s1: "dropWhile isDigit s1 = 0x2E # s2" "takeWhile isDigit s1 \<noteq> []"
      and s2: "takeWhile isDigit s2 \<noteq> []"
      and v: "v = takeWhile isDigit u @ [0x2E] @ takeWhile isDigit s1 @ [0x2E] @ takeWhile isDigit s2"
      unfolding semver_at_def
      by (auto simp del: dropWhile_eq_Nil_conv split: list.splits if_splits)
    have r: "run (re_group version_literal) u = star isDigit (tl s2)"
      unfolding run_semver using u s1 s2 by simp
    have d: "dropWhile isDigit (tl s2) = dropWhile isDigit s2"
      using s2 by (cases s2) (auto split: if_splits)
    have "u = takeWhile isDigit u @ dropWhile isDigit u" by simp
    also have "\<dots> = takeWhile isDigit u @ 0x2E # (takeWhile isDigit s1 @ dropWhile isDigit s1)"
      unfolding u(1) by simp
    also have "\<dots> = takeWhile isDigit u @ 0x2E # takeWhile isDigit s1 @ 0x2E # (takeWhile isDigit s2 @ dropWhile isDigit s2)"
      unfolding s1(1) by simp
    finally have "u = v @ dropWhile isDigit s2" unfolding v by simp
    then have "take (length u - length (dropWhile isDigit s2)) u = v"
      by (metis add_diff_cancel_right' append_eq_conv_conj length_append)
    then have f: "(case concat (map (\<lambda>s2. map (\<lambda>s3. (take (length u - length s2) u, s3)) (run [Opt isQuote] s2))
                         (star isDigit (tl s2))) of [] \<Rightarrow> None | m # _ \<Rightarrow> Some (fst m)) = Some v"
      using first [of "tl s2"] d by simp
    have ra: "re_after version_literal = [Opt isQuote]"
      by (simp add: version_literal_def)
    show ?thesis
      unfolding group_matches_def r ra f Some ..
  qed
qed

lemma group_matches_version_no_digit:
  "takeWhile isDigit u = [] \<Longrightarrow> group_matches version_literal u = []"
  unfolding group_matches_def run_semver
  by (simp del: dropWhile_eq_Nil_conv split: list.splits)

lemma opt_quote_then_group:
  "concat (map (group_matches version_literal) (run [Opt isQuote] y))
     = group_matches version_literal (skip_quote y)"
proof (cases y)
  case Nil
  then show ?thesis by (simp add: skip_quote_def)
next
  case (Cons c cs)
  show ?thesis
  proof (cases "isQuote c")
    case True
    then have "group_matches version_literal (c # cs) = []"
      using quote_not_digit by (intro group_matches_version_no_digit) simp
    with True Cons show ?thesis by (simp add: skip_quote_def)
  next
    case False
    with Cons show ?thesis by (simp add: skip_quote_def)
  qed
qed

lemma before_version:
  "run (re_before version_literal) s =
     (if prefix (js ''version:'') s
      then concat (map (run [Opt isQuote]) (star isWhiteSpace (drop 8 s))) else [])"
proof -
  have "run (map Chr (js ''version:'') @ [Star isWhiteSpace, Opt isQuote]) s =
          (if prefix (js ''version:'') s
           then run [Star isWhiteSpace, Opt isQuote] (drop (length (js ''version:'')) s) else [])"
    by (rule run_literal)
  moreover have "length (js ''version:'') = 8" by (simp add: js_def)
  ultimately show ?thesis
    by (simp add: version_literal_def del: run.simps add: run_Star)
qed

lemma match_at_version_literal:
  "map_option fst (match_at version_literal s) = version_assignment_at s"
proof (cases "prefix (js ''version:'') s")
  case False
  then show ?thesis
    by (simp add: match_at_def before_version version_assignment_at_def)
next
  case True
  let ?K = "\<lambda>x. concat (map (group_matches version_literal) (run [Opt isQuote] x))"
  have fail: "\<And>c cs. isWhiteSpace c \<Longrightarrow> ?K (c # cs) = []"
    unfolding opt_quote_then_group
    using ws_not_quote ws_not_digit
    by (intro group_matches_version_no_digit) (simp add: skip_quote_def)
  have "concat (map (group_matches version_literal) (run (re_before version_literal) s))
          = concat (map ?K (star isWhiteSpace (drop 8 s)))"
    using True by (simp add: before_version concat_map_concat_map del: run.simps)
  also have "\<dots> = ?K (dropWhile isWhiteSpace (drop 8 s))"
    using fail by (rule star_first_success)
  finally have eq: "concat (map (group_matches version_literal) (run (re_before version_literal) s))
      = group_matches version_literal (skip_quote (dropWhile isWhiteSpace (drop 8 s)))"
    unfolding opt_quote_then_group .
  have "map_option fst (match_at version_literal s)
          = (case group_matches version_literal (skip_quote (dropWhile isWhiteSpace (drop 8 s)))
             of [] \<Rightarrow> None | m # _ \<Rightarrow> Some (fst m))"
    unfolding match_at_def eq by (simp split: list.split)
  then show ?thesis
    using True by (simp add: group_matches_version_first version_assignment_at_def)
qed

lemma version_assignment_at_Nil: "version_assignment_at [] = None"
  by (simp add: version_assignment_at_def js_def)

lemma loadedVersion_detectVersion:
  "loadedVersion t = (case detectVersion t of Inl e \<Rightarrow> None | Inr v \<Rightarrow> Some v)"
proof (induction t)
  case Nil
  have "map_option fst (match_at version_literal []) = None"
    unfolding match_at_version_literal by (rule version_assignment_at_Nil)
  then show ?case by (simp add: loadedVersion_def)
next
  case (Cons c cs)
  have m: "map_option fst (match_at version_literal (c # cs)) = version_assignment_at (c # cs)"
    by (rule match_at_version_literal)
  show ?case
  proof (cases "version_assignment_at (c # cs)")
    case None
    with m have "match_at version_literal (c # cs) = None" by simp
    with None Cons show ?thesis by (simp add: loadedVersion_def)
  next
    case (Some v)
    with m obtain mm where "match_at version_literal (c # cs) = Some mm" "fst mm = v" by auto
    with Some show ?thesis by (simp add: loadedVersion_def)
  qed
qed

lemma semver_at_nonempty: "semver_at u = Some v \<Longrightarrow> v \<noteq> []"
  by (auto simp: semver_at_def simp del: dropWhile_eq_Nil_conv split: list.splits if_splits)

lemma detectVersion_nonempty: "detectVersion t = Inr v \<Longrightarrow> v \<noteq> []"
  by (induction t) (auto simp: version_assignment_at_def dest: semver_at_nonempty split: option.splits if_splits)

lemma truthy_loadedVersion: "truthy (loadedVersion t) = loadedVersion t"
  using detectVersion_nonempty [of t]
  by (auto simp: truthy_def loadedVersion_detectVersion split: option.splits sum.splits)

lemma detectVersion_no_token:
  "\<not> sublist (js ''version:'') t \<Longrightarrow> detectVersion t = Inl VersionNotFound"
proof (induction t)
  case Nil
  show ?case by simp
next
  case (Cons c cs)
  then have "\<not> prefix (js ''version:'') (c # cs)" "\<not> sublist (js ''version:'') cs"
    by (auto simp: sublist_Cons_right)
  with Cons show ?case by (simp add: version_assignment_at_def)
qed


lemma semver_at_literal:
  assumes "a \<noteq> []" "list_all isDigit a" "b \<noteq> []" "list_all isDigit b"
    "c \<noteq> []" "list_all isDigit c" "takeWhile isDigit rest = []"
  shows "semver_at (a @ 0x2E # b @ 0x2E # c @ rest) = Some (a @ [0x2E] @ b @ [0x2E] @ c)"
proof -
  have nd: "\<not> isDigit 0x2E" using digit_not_dot by blast
  have ta: "takeWhile isDigit (a @ 0x2E # t) = a" and da: "dropWhile isDigit (a @ 0x2E # t) = 0x2E # t" for t
    using assms(2) nd by (simp_all add: list_all_iff takeWhile_append dropWhile_append)
  have tb: "takeWhile isDigit (b @ 0x2E # t) = b" and db: "dropWhile isDigit (b @ 0x2E # t) = 0x2E # t" for t
    using assms(4) nd by (simp_all add: list_all_iff takeWhile_append dropWhile_append)
  have tc: "takeWhile isDigit (c @ rest) = c"
    using assms(6,7) by (simp add: list_all_iff takeWhile_append)
  show ?thesis
    using assms(1,3,5) by (simp add: semver_at_def ta da tb db tc)
qed

lemma version_assignment_at_literal:
  assumes "list_all isWhiteSpace ws" "q = [] \<or> q = [0x22] \<or> q = [0x27]"
    "a \<noteq> []" "list_all isDigit a" "b \<noteq> []" "list_all isDigit b"
    "c \<noteq> []" "list_all isDigit c" "takeWhile isDigit rest = []"
  shows "version_assignment_at (js ''version:'' @ ws @ q @ a @ 0x2E # b @ 0x2E # c @ rest)
           = Some (a @ [0x2E] @ b @ [0x2E] @ c)"
proof -
  let ?lit = "a @ 0x2E # b @ 0x2E # c @ rest"
  obtain d ds where a: "a = d # ds" using assms(3) by (cases a) auto
  have dd: "isDigit d" using assms(4) a by simp
  have nq: "\<not> isQuote d" using dd quote_not_digit by blast
  have nws: "\<not> isWhiteSpace d" using dd ws_not_digit by blast
  have q: "\<not> isWhiteSpace 0x22" "\<not> isWhiteSpace 0x27" "isQuote 0x22" "isQuote 0x27"
    by (simp_all add: isWhiteSpace_def isQuote_def)
  have "dropWhile isWhiteSpace (ws @ q @ ?lit) = q @ ?lit"
    using assms(1,2) nws q a by (auto simp: list_all_iff dropWhile_append)
  moreover have "skip_quote (q @ ?lit) = ?lit"
    using assms(2) nq q a by (auto simp: skip_quote_def)
  moreover have "prefix (js ''version:'') (js ''version:'' @ ws @ q @ ?lit)" by simp
  moreover have "drop 8 (js ''version:'' @ ws @ q @ ?lit) = ws @ q @ ?lit"
    by (simp add: js_def)
  ultimately show ?thesis
    unfolding version_assignment_at_def
    using semver_at_literal [OF assms(3-9)] by (simp only: if_True)
qed

lemma prefix_within:
  "prefix xs (ys @ zs) \<Longrightarrow> length xs \<le> length ys \<Longrightarrow> prefix xs ys"
proof -
  assume "prefix xs (ys @ zs)" "length xs \<le> length ys"
  then have "xs = take (length xs) (ys @ zs)"
    by (metis append_eq_conv_conj prefix_def)
  also have "\<dots> = take (length xs) ys"
    using \<open>length xs \<le> length ys\<close> by simp
  finally show ?thesis
    by (metis take_is_prefix)
qed

lemma detectVersion_first_assignment:
  assumes first: "\<not> sublist (js ''version:'') (pre @ js ''version'')"
    and lit: "list_all isWhiteSpace ws" "q = [] \<or> q = [0x22] \<or> q = [0x27]"
    "a \<noteq> []" "list_all isDigit a" "b \<noteq> []" "list_all isDigit b"
    "c \<noteq> []" "list_all isDigit c" "takeWhile isDigit rest = []"
  shows "detectVersion (pre @ js ''version:'' @ ws @ q @ a @ 0x2E # b @ 0x2E # c @ rest)
           = Inr (a @ [0x2E] @ b @ [0x2E] @ c)"
  using first
proof (induction pre)
  case Nil
  have "version_assignment_at (js ''version:'' @ ws @ q @ a @ 0x2E # b @ 0x2E # c @ rest)
           = Some (a @ [0x2E] @ b @ [0x2E] @ c)"
    using lit by (rule version_assignment_at_literal)
  moreover have "js ''version:'' @ ws @ q @ a @ 0x2E # b @ 0x2E # c @ rest
     = 0x76 # (js ''ersion:'' @ ws @ q @ a @ 0x2E # b @ 0x2E # c @ rest)"
    by (simp add: js_def)
  ultimately show ?case by simp
next
  case (Cons p pre)
  let ?tail = "ws @ q @ a @ 0x2E # b @ 0x2E # c @ rest"
  have split: "js ''version:'' = js ''version'' @ [0x3A]" by (simp add: js_def)
  have "\<not> prefix (js ''version:'') ((p # pre) @ js ''version'')"
    using Cons.prems prefix_imp_sublist by blast
  moreover have "length (js ''version:'') \<le> length ((p # pre) @ js ''version'')"
    by (simp add: js_def)
  ultimately have "\<not> prefix (js ''version:'') (((p # pre) @ js ''version'') @ 0x3A # ?tail)"
    using prefix_within by blast
  then have "version_assignment_at (p # pre @ js ''version:'' @ ?tail) = None"
    by (simp add: version_assignment_at_def split)
  moreover have "\<not> sublist (js ''version:'') (pre @ js ''version'')"
    using Cons.prems by (auto simp: sublist_Cons_right)
  ultimately show ?case using Cons.IH by simp
qed


lemma detectVersion_error: "detectVersion t = Inl e \<Longrightarrow> e = VersionNotFound"
  by (induction t) (auto split: option.splits)

lemma onLoadConfig_version_not_found:
  assumes "truthy (loadedVersion t) = None"
  shows "toasts (onLoadConfig P tbl now (PickSuccess t) st) =
           toasts st @
           [\<lparr>toast_id = js ''config-'' @ Number_toString now, toast_kind = ToastLoading,
              toast_message = js ''Waiting for file...'', toast_description = None\<rparr>,
            \<lparr>toast_id = js ''config-'' @ Number_toString now, toast_kind = ToastError,
              toast_message = js ''Version not found in configuration file'',
              toast_description = None\<rparr>]"
  using assms by (simp add: onLoadConfig_def Let_def send_toast_def)

lemma loadedVersion_example:
  "loadedVersion (js ''version: '' @ [0x22] @ js ''1.2.0'' @ [0x22]) = Some (js ''1.2.0'')"
  by (simp add: loadedVersion_detectVersion version_assignment_at_def js_def skip_quote_def
        semver_at_def isWhiteSpace_def isQuote_def isDigit_def)

text \<open>
  Claim C3. For every raw source text, the detection of the code (the value of
  \<open>loadedVersion\<close> under the test \<open>!loadedVersion\<close>) is one scan for a \<open>version:\<close>
  assignment that carries a semantic-version literal and returns that literal: it is
  \<open>detectVersion\<close>, the literal of the leftmost assignment. A text without \<open>version:\<close>
  gives no version; a text whose first \<open>version:\<close> is followed by white space, an
  optional quote and a literal \<open>a.b.c\<close> gives \<open>a.b.c\<close>; the text \<open>version: "1.2.0"\<close>
  gives \<open>1.2.0\<close>; and when no version is found the load reports
  \<open>Version not found in configuration file\<close>.
\<close>

theorem loadedVersion_is_detectVersion:
  "(case truthy (loadedVersion t) of None \<Rightarrow> Inl VersionNotFound | Some v \<Rightarrow> Inr v)
     = detectVersion t
   \<and> (\<not> sublist (js ''version:'') t \<longrightarrow> truthy (loadedVersion t) = None)
   \<and> (\<not> sublist (js ''version:'') (pre @ js ''version'')
        \<and> list_all isWhiteSpace ws \<and> (q = [] \<or> q = [0x22] \<or> q = [0x27])
        \<and> a \<noteq> [] \<and> list_all isDigit a \<and> b \<noteq> [] \<and> list_all isDigit b
        \<and> c \<noteq> [] \<and> list_all isDigit c \<and> takeWhile isDigit rest = [] \<longrightarrow>
      truthy (loadedVersion (pre @ js ''version:'' @ ws @ q @ a @ 0x2E # b @ 0x2E # c @ rest))
        = Some (a @ [0x2E] @ b @ [0x2E] @ c))
   \<and> truthy (loadedVersion (js ''version: '' @ [0x22] @ js ''1.2.0'' @ [0x22]))
        = Some (js ''1.2.0'')
   \<and> (truthy (loadedVersion t) = None \<longrightarrow>
      toasts (onLoadConfig P tbl now (PickSuccess t) st) =
        toasts st @
        [\<lparr>toast_id = js ''config-'' @ Number_toString now, toast_kind = ToastLoading,
           toast_message = js ''Waiting for file...'', toast_description = None\<rparr>,
         \<lparr>toast_id = js ''config-'' @ Number_toString now, toast_kind = ToastError,
           toast_message = js ''Version not found in configuration file'',
           toast_description = None\<rparr>])"
proof (intro conjI)
  show "(case truthy (loadedVersion t) of None \<Rightarrow> Inl VersionNotFound | Some v \<Rightarrow> Inr v)
          = detectVersion t"
    unfolding truthy_loadedVersion unfolding loadedVersion_detectVersion
    using detectVersion_error [of t] by (auto split: sum.splits)
  show "\<not> sublist (js ''version:'') t \<longrightarrow> truthy (loadedVersion t) = None"
    unfolding truthy_loadedVersion unfolding loadedVersion_detectVersion
    using detectVersion_no_token [of t] by simp
  show "\<not> sublist (js ''version:'') (pre @ js ''version'')
        \<and> list_all isWhiteSpace ws \<and> (q = [] \<or> q = [0x22] \<or> q = [0x27])
        \<and> a \<noteq> [] \<and> list_all isDigit a \<and> b \<noteq> [] \<and> list_all isDigit b
        \<and> c \<noteq> [] \<and> list_all isDigit c \<and> takeWhile isDigit rest = [] \<longrightarrow>
      truthy (loadedVersion (pre @ js ''version:'' @ ws @ q @ a @ 0x2E # b @ 0x2E # c @ rest))
        = Some (a @ [0x2E] @ b @ [0x2E] @ c)"
    unfolding truthy_loadedVersion unfolding loadedVersion_detectVersion
    using detectVersion_first_assignment [of pre ws q a b c rest] by simp
  show "truthy (loadedVersion (js ''version: '' @ [0x22] @ js ''1.2.0'' @ [0x22]))
        = Some (js ''1.2.0'')"
    unfolding truthy_loadedVersion by (rule loadedVersion_example)
  show "truthy (loadedVersion t) = None \<longrightarrow>
      toasts (onLoadConfig P tbl now (PickSuccess t) st) =
        toasts st @
        [\<lparr>toast_id = js ''config-'' @ Number_toString now, toast_kind = ToastLoading,
           toast_message = js ''Waiting for file...'', toast_description = None\<rparr>,
         \<lparr>toast_id = js ''config-'' @ Number_toString now, toast_kind = ToastError,
           toast_message = js ''Version not found in configuration file'',
           toast_description = None\<rparr>]"
    using onLoadConfig_version_not_found by blast
qed

text \<open>
  The theorem at a configuration file with the version 2.10.3 and at a file without a
  version, which the load reports as such.
\<close>

theorem loadedVersion_is_detectVersion_witness:
  "truthy (loadedVersion (js ''export default { version: '' @ [0x22] @ js ''2.10.3'' @ [0x22] @ js '', }''))
     = Some (js ''2.10.3'')
   \<and> truthy (loadedVersion (js ''export default { }'')) = None
   \<and> detectVersion (js ''export default { }'') = Inl VersionNotFound
   \<and> map toast_message
       (toasts (onLoadConfig ProcessConfiguration_ok example_table 1700000000000
          (PickSuccess (js ''export default { }'')) example_page))
     = [js ''Waiting for file...'', js ''Version not found in configuration file'']"
proof -
  let ?pre = "js ''export default { ''"
  let ?rest = "0x22 # js '', }''"
  note T = loadedVersion_is_detectVersion
  have h: "\<not> sublist (js ''version:'') (?pre @ js ''version'')"
    by (simp add: js_def sublist_Cons_right)
  have d: "list_all isWhiteSpace (js '' '')" "js ''2'' \<noteq> []" "list_all isDigit (js ''2'')"
    "js ''10'' \<noteq> []" "list_all isDigit (js ''10'')" "js ''3'' \<noteq> []" "list_all isDigit (js ''3'')"
    "takeWhile isDigit ?rest = []"
    by (simp_all add: js_def isWhiteSpace_def isDigit_def)
  have "truthy (loadedVersion (?pre @ js ''version:'' @ js '' '' @ [0x22] @ js ''2'' @ 0x2E # js ''10'' @ 0x2E # js ''3'' @ ?rest))
          = Some (js ''2'' @ [0x2E] @ js ''10'' @ [0x2E] @ js ''3'')"
    using T [where pre = ?pre and ws = "js '' ''" and q = "[0x22]" and a = "js ''2''"
        and b = "js ''10''" and c = "js ''3''" and rest = ?rest] h d by blast
  then have 1: "truthy (loadedVersion (js ''export default { version: '' @ [0x22] @ js ''2.10.3'' @ [0x22] @ js '', }''))
     = Some (js ''2.10.3'')"
    by (simp add: js_def)
  have n: "\<not> sublist (js ''version:'') (js ''export default { }'')"
    by (simp add: js_def sublist_Cons_right)
  have 2: "truthy (loadedVersion (js ''export default { }'')) = None"
    using T [where t = "js ''export default { }''"] n by blast
  have "(case truthy (loadedVersion (js ''export default { }'')) of None \<Rightarrow> Inl VersionNotFound | Some v \<Rightarrow> Inr v)
     = detectVersion (js ''export default { }'')"
    using T [where t = "js ''export default { }''"] by blast
  with 2 have 3: "detectVersion (js ''export default { }'') = Inl VersionNotFound"
    by simp
  have "toasts (onLoadConfig ProcessConfiguration_ok example_table 1700000000000
          (PickSuccess (js ''export default { }'')) example_page)
        = toasts example_page @
          [\<lparr>toast_id = js ''config-'' @ Number_toString 1700000000000, toast_kind = ToastLoading,
             toast_message = js ''Waiting for file...'', toast_description = None\<rparr>,
           \<lparr>toast_id = js ''config-'' @ Number_toString 1700000000000, toast_kind = ToastError,
             toast_message = js ''Version not found in configuration file'',
             toast_description = None\<rparr>]"
    using T [where t = "js ''export default { }''" and P = ProcessConfiguration_ok
        and tbl = example_table and now = 1700000000000 and st = example_page] 2
    by blast
  then have 4: "map toast_message
       (toasts (onLoadConfig ProcessConfiguration_ok example_table 1700000000000
          (PickSuccess (js ''export default { }'')) example_page))
     = [js ''Waiting for file...'', js ''Version not found in configuration file'']"
    by simp
  from 1 2 3 4 show ?thesis by (intro conjI)
qed

section \<open>Classification takes the first group that lists the version\<close>

lemma find_first_entry:
  assumes "\<forall>e \<in> set pre. v \<notin> set (snd e)" "v \<in> set vs"
  shows "find (\<lambda>entry. v \<in> set (snd entry)) (pre @ (g, vs) # post) = Some (g, vs)"
  using assms by (induction pre) auto

lemma versionGroup_first:
  assumes "\<forall>e \<in> set pre. v \<notin> set (snd e)" "v \<in> set vs" "g \<noteq> []"
  shows "truthy (versionGroup (pre @ (g, vs) # post) v) = Some g"
  using find_first_entry [OF assms(1,2)] assms(3) by (simp add: versionGroup_def truthy_def)

lemma versionGroup_none:
  assumes "\<forall>e \<in> set tbl. v \<notin> set (snd e)"
  shows "truthy (versionGroup tbl v) = None"
proof -
  have "find (\<lambda>entry. v \<in> set (snd entry)) tbl = None"
    using assms by (auto simp: find_None_iff)
  then show ?thesis by (simp add: versionGroup_def truthy_def)
qed

lemma versionGroup_sound:
  assumes "truthy (versionGroup tbl v) = Some g"
  shows "g \<noteq> [] \<and> (\<exists>vs. (g, vs) \<in> set tbl \<and> v \<in> set vs)"
proof -
  from assms obtain e where e: "find (\<lambda>entry. v \<in> set (snd entry)) tbl = Some e" "fst e = g" "g \<noteq> []"
    by (auto simp: versionGroup_def truthy_def split: option.splits if_splits)
  then have "e \<in> set tbl" "v \<in> set (snd e)"
    by (auto simp: find_Some_iff)
  with e show ?thesis by (cases e) auto
qed

lemma onLoadConfig_version_unrecognized:
  assumes "truthy (loadedVersion t) = Some v" "truthy (versionGroup tbl v) = None"
  shows "onLoadConfig P tbl now (PickSuccess t) st =
           st\<lparr>toasts := toasts st @
             [\<lparr>toast_id = js ''config-'' @ Number_toString now, toast_kind = ToastLoading,
                toast_message = js ''Waiting for file...'', toast_description = None\<rparr>,
              \<lparr>toast_id = js ''config-'' @ Number_toString now, toast_kind = ToastError,
                toast_message = js ''Version not recognized'',
                toast_description =
                  Some (js ''Loaded version: '' @ v @ js '', not matching any known version'')\<rparr>],
              isLoadingConfig := False\<rparr>"
  using assms by (simp add: onLoadConfig_def Let_def send_toast_def)

text \<open>
  Claim C4 says that a version which matches ambiguously is a hard failure. The code
  takes the first entry that \<open>find\<close> meets: with the version 2.1.0 listed by the two
  groups v2 and latest, the version is classified as v2 and the load goes on to replace
  the document.
\<close>

theorem versionGroup_ambiguous_counterexample:
  "js ''2.1.0'' \<in> set [js ''2.0.0'', js ''2.1.0''] \<and> js ''2.1.0'' \<in> set [js ''2.1.0'', js ''2.2.0'']
   \<and> truthy (versionGroup
        [(js ''v1'', [js ''1.0.0'']), (js ''v2'', [js ''2.0.0'', js ''2.1.0'']),
         (js ''latest'', [js ''2.1.0'', js ''2.2.0''])] (js ''2.1.0''))
       = Some (js ''v2'')
   \<and> form_values (onLoadConfig ProcessConfiguration_ok example_table
        1700000000000 (PickSuccess (js ''version: 2.1.0'')) example_page)
       \<noteq> form_values example_page"
proof -
  have v: "truthy (loadedVersion (js ''version: 2.1.0'')) = Some (js ''2.1.0'')"
    by (simp add: truthy_def loadedVersion_detectVersion version_assignment_at_def js_def
          skip_quote_def semver_at_def isWhiteSpace_def isQuote_def isDigit_def)
  have g: "truthy (versionGroup example_table (js ''2.1.0'')) = Some (js ''v2'')"
    by (simp add: versionGroup_def truthy_def js_def)
  have "form_values (onLoadConfig ProcessConfiguration_ok example_table
          1700000000000 (PickSuccess (js ''version: 2.1.0'')) example_page)
        = setConfigValues example_loaded example_document"
    by (simp add: onLoadConfig_def Let_def send_toast_def v g)
  then show ?thesis using g by (simp add: setConfigValues_def Let_def)
qed

text \<open>
  Claim C4, amended. Classification maps the version to the first group, in the order of
  the table, whose list contains it, so a version that several groups list goes to the
  first of them. If no list contains the version the result is a failure and the load
  stops with \<open>Version not recognized\<close>; there is no fallback, since a group that is
  returned always lists the version. Group names are taken to be non-empty (the code
  treats an empty name as no group). With the group v1 listing 1.0.0 and 1.2.0, the
  version 1.2.0 is classified as v1.
\<close>

theorem versionGroup_first_match:
  "((\<forall>e \<in> set tbl. v \<notin> set (snd e)) \<longrightarrow> truthy (versionGroup tbl v) = None)
   \<and> ((\<forall>e \<in> set pre. v \<notin> set (snd e)) \<and> v \<in> set vs \<and> g \<noteq> [] \<longrightarrow>
        truthy (versionGroup (pre @ (g, vs) # post) v) = Some g)
   \<and> (truthy (versionGroup tbl v) = Some g' \<longrightarrow>
        g' \<noteq> [] \<and> (\<exists>vs'. (g', vs') \<in> set tbl \<and> v \<in> set vs'))
   \<and> truthy (versionGroup [(js ''v1'', [js ''1.0.0'', js ''1.2.0''])] (js ''1.2.0''))
        = Some (js ''v1'')
   \<and> (truthy (loadedVersion t) = Some v \<and> truthy (versionGroup tbl v) = None \<longrightarrow>
        onLoadConfig P tbl now (PickSuccess t) st =
          st\<lparr>toasts := toasts st @
            [\<lparr>toast_id = js ''config-'' @ Number_toString now, toast_kind = ToastLoading,
               toast_message = js ''Waiting for file...'', toast_description = None\<rparr>,
             \<lparr>toast_id = js ''config-'' @ Number_toString now, toast_kind = ToastError,
               toast_message = js ''Version not recognized'',
               toast_description =
                 Some (js ''Loaded version: '' @ v @ js '', not matching any known version'')\<rparr>],
             isLoadingConfig := False\<rparr>)"
proof (intro conjI)
  show "(\<forall>e \<in> set tbl. v \<notin> set (snd e)) \<longrightarrow> truthy (versionGroup tbl v) = None"
    using versionGroup_none by blast
  show "(\<forall>e \<in> set pre. v \<notin> set (snd e)) \<and> v \<in> set vs \<and> g \<noteq> [] \<longrightarrow>
        truthy (versionGroup (pre @ (g, vs) # post) v) = Some g"
    using versionGroup_first by blast
  show "truthy (versionGroup tbl v) = Some g' \<longrightarrow>
        g' \<noteq> [] \<and> (\<exists>vs'. (g', vs') \<in> set tbl \<and> v \<in> set vs')"
    using versionGroup_sound by blast
  show "truthy (versionGroup [(js ''v1'', [js ''1.0.0'', js ''1.2.0''])] (js ''1.2.0''))
        = Some (js ''v1'')"
    by (simp add: versionGroup_def truthy_def js_def)
  show "truthy (loadedVersion t) = Some v \<and> truthy (versionGroup tbl v) = None \<longrightarrow>
        onLoadConfig P tbl now (PickSuccess t) st =
          st\<lparr>toasts := toasts st @
            [\<lparr>toast_id = js ''config-'' @ Number_toString now, toast_kind = ToastLoading,
               toast_message = js ''Waiting for file...'', toast_description = None\<rparr>,
             \<lparr>toast_id = js ''config-'' @ Number_toString now, toast_kind = ToastError,
               toast_message = js ''Version not recognized'',
               toast_description =
                 Some (js ''Loaded version: '' @ v @ js '', not matching any known version'')\<rparr>],
             isLoadingConfig := False\<rparr>"
    using onLoadConfig_version_unrecognized by blast
qed

text \<open>
  The theorem at a table of three groups: 2.1.0, which v2 and latest list, goes to v2, a
  group that lists it; 3.0.0 goes to no group, and a file of that version stops the load
  with \<open>Version not recognized\<close>.
\<close>

theorem versionGroup_first_match_witness:
  "truthy (versionGroup example_table (js ''2.1.0'')) = Some (js ''v2'')
   \<and> truthy (versionGroup example_table (js ''3.0.0'')) = None
   \<and> (\<exists>vs'. (js ''v2'', vs') \<in> set example_table \<and> js ''2.1.0'' \<in> set vs')
   \<and> map toast_message
       (toasts (onLoadConfig ProcessConfiguration_ok example_table 1700000000000
          (PickSuccess (js ''version: 3.0.0'')) example_page))
     = [js ''Waiting for file...'', js ''Version not recognized'']"
proof -
  note T = versionGroup_first_match
  have a: "\<forall>e \<in> set [(js ''v1'', [js ''1.0.0''])]. js ''2.1.0'' \<notin> set (snd e)"
    and b: "js ''2.1.0'' \<in> set [js ''2.0.0'', js ''2.1.0'']" and c: "js ''v2'' \<noteq> []"
    by (simp_all add: js_def)
  have "truthy (versionGroup ([(js ''v1'', [js ''1.0.0''])] @ (js ''v2'', [js ''2.0.0'', js ''2.1.0''])
          # [(js ''latest'', [js ''2.1.0'', js ''2.2.0''])]) (js ''2.1.0'')) = Some (js ''v2'')"
    using T [where pre = "[(js ''v1'', [js ''1.0.0''])]" and v = "js ''2.1.0''" and g = "js ''v2''"
        and vs = "[js ''2.0.0'', js ''2.1.0'']" and post = "[(js ''latest'', [js ''2.1.0'', js ''2.2.0''])]"]
      a b c by blast
  then have 1: "truthy (versionGroup example_table (js ''2.1.0'')) = Some (js ''v2'')" by simp
  have d: "\<forall>e \<in> set example_table. js ''3.0.0'' \<notin> set (snd e)"
    by (simp add: js_def)
  have 2: "truthy (versionGroup example_table (js ''3.0.0'')) = None"
    using T [where tbl = example_table and v = "js ''3.0.0''"] d by blast
  have 3: "\<exists>vs'. (js ''v2'', vs') \<in> set example_table \<and> js ''2.1.0'' \<in> set vs'"
    using T [where tbl = example_table and v = "js ''2.1.0''" and g' = "js ''v2''"] 1 by blast
  have v: "truthy (loadedVersion (js ''version: 3.0.0'')) = Some (js ''3.0.0'')"
    by (simp add: truthy_def loadedVersion_detectVersion version_assignment_at_def js_def
          skip_quote_def semver_at_def isWhiteSpace_def isQuote_def isDigit_def)
  have "onLoadConfig ProcessConfiguration_ok example_table 1700000000000
          (PickSuccess (js ''version: 3.0.0'')) example_page =
          example_page\<lparr>toasts := toasts example_page @
            [\<lparr>toast_id = js ''config-'' @ Number_toString 1700000000000, toast_kind = ToastLoading,
               toast_message = js ''Waiting for file...'', toast_description = None\<rparr>,
             \<lparr>toast_id = js ''config-'' @ Number_toString 1700000000000, toast_kind = ToastError,
               toast_message = js ''Version not recognized'',
               toast_description =
                 Some (js ''Loaded version: '' @ js ''3.0.0'' @ js '', not matching any known version'')\<rparr>],
             isLoadingConfig := False\<rparr>"
    using T [where tbl = example_table and v = "js ''3.0.0''" and t = "js ''version: 3.0.0''"
        and P = ProcessConfiguration_ok and now = 1700000000000 and st = example_page] v 2
    by blast
  then have 4: "map toast_message
       (toasts (onLoadConfig ProcessConfiguration_ok example_table 1700000000000
          (PickSuccess (js ''version: 3.0.0'')) example_page))
     = [js ''Waiting for file...'', js ''Version not recognized'']"
    by simp
  from 1 2 3 4 show ?thesis by (intro conjI)
qed

section \<open>Loading a file into the document\<close>

lemma setConfigValues_environment:
  "environment (setConfigValues loaded f) = environment f"
  by (simp add: setConfigValues_def Let_def)

lemma setConfigValues_api: "api (setConfigValues loaded f) = api loaded"
  by (simp add: setConfigValues_def Let_def)

lemma setConfigValues_site: "site (setConfigValues loaded f) = site loaded"
  by (simp add: setConfigValues_def Let_def)

lemma onLoadEnv_cases:
  "onLoadEnv PEC now response st =
     (case response of
        PickFailure msg details \<Rightarrow>
          st\<lparr>toasts := toasts st @
               [\<lparr>toast_id = js ''env-latest-'' @ Number_toString now, toast_kind = ToastLoading,
                  toast_message = js ''Waiting for file...'', toast_description = None\<rparr>,
                \<lparr>toast_id = js ''env-latest-'' @ Number_toString now, toast_kind = ToastError,
                  toast_message = msg,
                  toast_description = (if details = [] then None else Some (Array_join [0x0A] details))\<rparr>],
             isLoadingEnv := False\<rparr>
      | PickSuccess t \<Rightarrow>
          (case PEC t of
             ActionFailure msg err \<Rightarrow>
               st\<lparr>toasts := toasts st @
                   [\<lparr>toast_id = js ''env-latest-'' @ Number_toString now, toast_kind = ToastLoading,
                      toast_message = js ''Waiting for file...'', toast_description = None\<rparr>,
                    \<lparr>toast_id = js ''env-latest-'' @ Number_toString now, toast_kind = ToastLoading,
                      toast_message = js ''Processing environment file...'', toast_description = None\<rparr>,
                    \<lparr>toast_id = js ''env-latest-'' @ Number_toString now, toast_kind = ToastError,
                      toast_message = msg, toast_description = Some err\<rparr>],
                  isLoadingEnv := False\<rparr>
           | ActionSuccess msg env \<Rightarrow>
               st\<lparr>form_values := (form_values st)\<lparr>environment := env\<rparr>,
                  toasts := toasts st @
                   [\<lparr>toast_id = js ''env-latest-'' @ Number_toString now, toast_kind = ToastLoading,
                      toast_message = js ''Waiting for file...'', toast_description = None\<rparr>,
                    \<lparr>toast_id = js ''env-latest-'' @ Number_toString now, toast_kind = ToastLoading,
                      toast_message = js ''Processing environment file...'', toast_description = None\<rparr>,
                    \<lparr>toast_id = js ''env-latest-'' @ Number_toString now, toast_kind = ToastSuccess,
                      toast_message = msg, toast_description = None\<rparr>],
                  isLoadingEnv := False\<rparr>))"
  by (simp add: onLoadEnv_def Let_def send_toast_def split: PickFileResponse.split action_result.split)

lemma onLoadEnv_error_keeps_form:
  "last_toast_kind (onLoadEnv PEC now response st) = Some ToastError \<Longrightarrow>
   form_values (onLoadEnv PEC now response st) = form_values st"
  by (auto simp: onLoadEnv_cases last_toast_kind_def split: PickFileResponse.splits action_result.splits)

lemma onLoadEnv_last_toast:
  "last_toast_kind (onLoadEnv PEC now response st) =
     (case response of
        PickFailure msg details \<Rightarrow> Some ToastError
      | PickSuccess t \<Rightarrow>
          (case PEC t of ActionFailure msg err \<Rightarrow> Some ToastError
                       | ActionSuccess msg env \<Rightarrow> Some ToastSuccess))"
  by (simp add: onLoadEnv_cases last_toast_kind_def split: PickFileResponse.splits action_result.splits)

lemma onLoadConfig_form:
  "form_values (onLoadConfig PC tbl now response st) =
     (case response of
        PickFailure msg details \<Rightarrow> form_values st
      | PickSuccess t \<Rightarrow>
          (case truthy (loadedVersion t) of
             None \<Rightarrow> form_values st
           | Some v \<Rightarrow>
               (case truthy (versionGroup tbl v) of
                  None \<Rightarrow> form_values st
                | Some g \<Rightarrow>
                    (case PC t g of
                       ActionFailure msg err \<Rightarrow> form_values st
                     | ActionSuccess msg loaded \<Rightarrow> setConfigValues loaded (form_values st)))))"
  by (simp add: onLoadConfig_def Let_def send_toast_def
        split: PickFileResponse.split action_result.split option.split)

lemma onLoadConfig_last_toast:
  "last_toast_kind (onLoadConfig PC tbl now response st) =
     (case response of
        PickFailure msg details \<Rightarrow> Some ToastError
      | PickSuccess t \<Rightarrow>
          (case truthy (loadedVersion t) of
             None \<Rightarrow> Some ToastError
           | Some v \<Rightarrow>
               (case truthy (versionGroup tbl v) of
                  None \<Rightarrow> Some ToastError
                | Some g \<Rightarrow>
                    (case PC t g of
                       ActionFailure msg err \<Rightarrow> Some ToastError
                     | ActionSuccess msg loaded \<Rightarrow> Some ToastSuccess))))"
  by (simp add: onLoadConfig_def Let_def send_toast_def last_toast_kind_def
        split: PickFileResponse.split action_result.split option.split)

lemma onLoadConfig_error_keeps_form:
  "last_toast_kind (onLoadConfig PC tbl now response st) = Some ToastError \<Longrightarrow>
   form_values (onLoadConfig PC tbl now response st) = form_values st"
  unfolding onLoadConfig_last_toast onLoadConfig_form
  by (auto split: PickFileResponse.splits action_result.splits option.splits)


text \<open>
  Claim C5. For every load operation (\<open>onLoadConfig\<close>, \<open>onLoadEnv\<close>) and every document:
  if the load ends with an error notification, every field of the document has the value
  it had before the load, and a document that has changed means that the load has ended
  with the success notification. Every failing stage ends the operation with an error
  notification: the file pick, the version that is not found, the version that is not
  recognised, and the processing on the server.
\<close>

theorem failed_load_keeps_document:
  "(last_toast_kind (onLoadEnv PEC now response st) = Some ToastError \<longrightarrow>
      form_values (onLoadEnv PEC now response st) = form_values st)
   \<and> (last_toast_kind (onLoadConfig PC tbl now response st) = Some ToastError \<longrightarrow>
      form_values (onLoadConfig PC tbl now response st) = form_values st)
   \<and> (form_values (onLoadEnv PEC now response st) \<noteq> form_values st \<longrightarrow>
      last_toast_kind (onLoadEnv PEC now response st) = Some ToastSuccess)
   \<and> (form_values (onLoadConfig PC tbl now response st) \<noteq> form_values st \<longrightarrow>
      last_toast_kind (onLoadConfig PC tbl now response st) = Some ToastSuccess)
   \<and> last_toast_kind (onLoadEnv PEC now (PickFailure m d) st) = Some ToastError
   \<and> (PEC t = ActionFailure m e \<longrightarrow>
      last_toast_kind (onLoadEnv PEC now (PickSuccess t) st) = Some ToastError)
   \<and> last_toast_kind (onLoadConfig PC tbl now (PickFailure m d) st) = Some ToastError
   \<and> (truthy (loadedVersion t) = None \<longrightarrow>
      last_toast_kind (onLoadConfig PC tbl now (PickSuccess t) st) = Some ToastError)
   \<and> (truthy (loadedVersion t) = Some v \<and> truthy (versionGroup tbl v) = None \<longrightarrow>
      last_toast_kind (onLoadConfig PC tbl now (PickSuccess t) st) = Some ToastError)
   \<and> (truthy (loadedVersion t) = Some v \<and> truthy (versionGroup tbl v) = Some g
        \<and> PC t g = ActionFailure m e \<longrightarrow>
      last_toast_kind (onLoadConfig PC tbl now (PickSuccess t) st) = Some ToastError)"
proof (intro conjI)
  show "last_toast_kind (onLoadEnv PEC now response st) = Some ToastError \<longrightarrow>
      form_values (onLoadEnv PEC now response st) = form_values st"
    using onLoadEnv_error_keeps_form by blast
  show "last_toast_kind (onLoadConfig PC tbl now response st) = Some ToastError \<longrightarrow>
      form_values (onLoadConfig PC tbl now response st) = form_values st"
    using onLoadConfig_error_keeps_form by blast
  show "form_values (onLoadEnv PEC now response st) \<noteq> form_values st \<longrightarrow>
      last_toast_kind (onLoadEnv PEC now response st) = Some ToastSuccess"
    using onLoadEnv_error_keeps_form [of PEC now response st]
    by (auto simp: onLoadEnv_last_toast split: PickFileResponse.splits action_result.splits)
  show "form_values (onLoadConfig PC tbl now response st) \<noteq> form_values st \<longrightarrow>
      last_toast_kind (onLoadConfig PC tbl now response st) = Some ToastSuccess"
    using onLoadConfig_error_keeps_form [of PC tbl now response st]
    by (auto simp: onLoadConfig_last_toast
          split: PickFileResponse.splits action_result.splits option.splits)
qed (simp_all add: onLoadEnv_last_toast onLoadConfig_last_toast)

text \<open>
  The theorem at each failing stage of the two loads (no file picked, no version in the
  file, a version of no group, a file the server fails to process), where the document
  stays as it was, and at the two loads that succeed, where it changes.
\<close>

theorem failed_load_keeps_document_witness:
  "form_values (onLoadConfig ProcessConfiguration_ok example_table 1700000000000
      (PickFailure (js ''No file selected'') []) example_page) = example_document
   \<and> form_values (onLoadConfig ProcessConfiguration_ok example_table 1700000000000
      (PickSuccess (js ''export default { }'')) example_page) = example_document
   \<and> form_values (onLoadConfig ProcessConfiguration_ok example_table 1700000000000
      (PickSuccess (js ''version: 3.0.0'')) example_page) = example_document
   \<and> form_values (onLoadConfig ProcessConfiguration_failing example_table 1700000000000
      (PickSuccess (js ''version: 2.0.0'')) example_page) = example_document
   \<and> form_values (onLoadEnv ProcessEnvironmentConfig_ok 1700000000000
      (PickFailure (js ''No file selected'') []) example_page) = example_document
   \<and> form_values (onLoadEnv ProcessEnvironmentConfig_failing 1700000000000
      (PickSuccess (js ''KEY='')) example_page) = example_document
   \<and> last_toast_kind (onLoadConfig ProcessConfiguration_ok example_table 1700000000000
      (PickSuccess (js ''version: 2.0.0'')) example_page) = Some ToastSuccess
   \<and> last_toast_kind (onLoadEnv ProcessEnvironmentConfig_ok 1700000000000
      (PickSuccess (js ''KEY=value'')) example_page) = Some ToastSuccess"
proof -
  note T = failed_load_keeps_document [where now = 1700000000000 and st = example_page]
  note C = T [where PC = ProcessConfiguration_ok and tbl = example_table]
  note E = T [where PEC = ProcessEnvironmentConfig_ok]
  have v2: "truthy (loadedVersion (js ''version: 2.0.0'')) = Some (js ''2.0.0'')"
    and v3: "truthy (loadedVersion (js ''version: 3.0.0'')) = Some (js ''3.0.0'')"
    by (simp_all add: truthy_def loadedVersion_detectVersion version_assignment_at_def js_def
          skip_quote_def semver_at_def isWhiteSpace_def isQuote_def isDigit_def)
  have v0: "truthy (loadedVersion (js ''export default { }'')) = None"
    by (simp add: truthy_def loadedVersion_detectVersion version_assignment_at_def js_def)
  have g2: "truthy (versionGroup example_table (js ''2.0.0'')) = Some (js ''v2'')"
    and g3: "truthy (versionGroup example_table (js ''3.0.0'')) = None"
    by (simp_all add: versionGroup_def truthy_def js_def)
  have 1: "form_values (onLoadConfig ProcessConfiguration_ok example_table 1700000000000
      (PickFailure (js ''No file selected'') []) example_page) = form_values example_page"
    using C [where response = "PickFailure (js ''No file selected'') []"
        and m = "js ''No file selected''" and d = "[]"]
    by blast
  have 2: "form_values (onLoadConfig ProcessConfiguration_ok example_table 1700000000000
      (PickSuccess (js ''export default { }'')) example_page) = form_values example_page"
    using C [where response = "PickSuccess (js ''export default { }'')"
        and t = "js ''export default { }''"] v0
    by blast
  have 3: "form_values (onLoadConfig ProcessConfiguration_ok example_table 1700000000000
      (PickSuccess (js ''version: 3.0.0'')) example_page) = form_values example_page"
    using C [where response = "PickSuccess (js ''version: 3.0.0'')"
        and t = "js ''version: 3.0.0''" and v = "js ''3.0.0''"] v3 g3
    by blast
  have f: "ProcessConfiguration_failing (js ''version: 2.0.0'') (js ''v2'')
             = ActionFailure (js ''Failed to parse'') (js ''site: Required'')"
    by simp
  have 4: "form_values (onLoadConfig ProcessConfiguration_failing example_table 1700000000000
      (PickSuccess (js ''version: 2.0.0'')) example_page) = form_values example_page"
    using T [where PC = ProcessConfiguration_failing and tbl = example_table
        and response = "PickSuccess (js ''version: 2.0.0'')" and t = "js ''version: 2.0.0''"
        and v = "js ''2.0.0''" and g = "js ''v2''" and m = "js ''Failed to parse''"
        and e = "js ''site: Required''"] v2 g2 f
    by blast
  have 5: "form_values (onLoadEnv ProcessEnvironmentConfig_ok 1700000000000
      (PickFailure (js ''No file selected'') []) example_page) = form_values example_page"
    using E [where response = "PickFailure (js ''No file selected'') []"
        and m = "js ''No file selected''" and d = "[]"]
    by blast
  have h: "ProcessEnvironmentConfig_failing (js ''KEY='')
             = ActionFailure (js ''Invalid file'') (js ''KEY: Required'')"
    by simp
  have 6: "form_values (onLoadEnv ProcessEnvironmentConfig_failing 1700000000000
      (PickSuccess (js ''KEY='')) example_page) = form_values example_page"
    using T [where PEC = ProcessEnvironmentConfig_failing
        and response = "PickSuccess (js ''KEY='')" and t = "js ''KEY=''"
        and m = "js ''Invalid file''" and e = "js ''KEY: Required''"] h
    by blast
  have "form_values (onLoadConfig ProcessConfiguration_ok example_table 1700000000000
      (PickSuccess (js ''version: 2.0.0'')) example_page) \<noteq> form_values example_page"
    by (simp add: onLoadConfig_form v2 g2 setConfigValues_def Let_def)
  then have 7: "last_toast_kind (onLoadConfig ProcessConfiguration_ok example_table 1700000000000
      (PickSuccess (js ''version: 2.0.0'')) example_page) = Some ToastSuccess"
    using C [where response = "PickSuccess (js ''version: 2.0.0'')"] by blast
  have "form_values (onLoadEnv ProcessEnvironmentConfig_ok 1700000000000
      (PickSuccess (js ''KEY=value'')) example_page) \<noteq> form_values example_page"
    by (simp add: onLoadEnv_cases)
  then have 8: "last_toast_kind (onLoadEnv ProcessEnvironmentConfig_ok 1700000000000
      (PickSuccess (js ''KEY=value'')) example_page) = Some ToastSuccess"
    using E [where response = "PickSuccess (js ''KEY=value'')"] by blast
  from 1 2 3 4 5 6 7 8 show ?thesis by simp
qed

text \<open>
  Claim C10. Each load writes its own sections only. An environment load never changes
  \<open>site\<close> or \<open>api\<close>, and when it succeeds the document is the old one with the
  \<open>environment\<close> section replaced. A configuration load never changes \<open>environment\<close>,
  and when it succeeds the document is the old one with \<open>api\<close> and \<open>site\<close> replaced by the
  loaded ones, the lists \<open>navbarItems\<close>, \<open>supports\<close> and \<open>footer\<close> included.
\<close>

theorem load_writes_own_sections:
  "site (form_values (onLoadEnv PEC now response st)) = site (form_values st)
   \<and> api (form_values (onLoadEnv PEC now response st)) = api (form_values st)
   \<and> environment (form_values (onLoadConfig PC tbl now response st)) = environment (form_values st)
   \<and> (PEC t = ActionSuccess m env \<longrightarrow>
        form_values (onLoadEnv PEC now (PickSuccess t) st) = (form_values st)\<lparr>environment := env\<rparr>)
   \<and> (truthy (loadedVersion t) = Some v \<and> truthy (versionGroup tbl v) = Some g
        \<and> PC t g = ActionSuccess m loaded \<longrightarrow>
        form_values (onLoadConfig PC tbl now (PickSuccess t) st)
          = (form_values st)\<lparr>api := api loaded, site := site loaded\<rparr>
        \<and> navbarItems (site (form_values (onLoadConfig PC tbl now (PickSuccess t) st)))
            = navbarItems (site loaded)
        \<and> supports (site (form_values (onLoadConfig PC tbl now (PickSuccess t) st)))
            = supports (site loaded)
        \<and> footer (site (form_values (onLoadConfig PC tbl now (PickSuccess t) st)))
            = footer (site loaded))"
proof (intro conjI impI)
  show "site (form_values (onLoadEnv PEC now response st)) = site (form_values st)"
    by (simp add: onLoadEnv_cases split: PickFileResponse.split action_result.split)
  show "api (form_values (onLoadEnv PEC now response st)) = api (form_values st)"
    by (simp add: onLoadEnv_cases split: PickFileResponse.split action_result.split)
  show "environment (form_values (onLoadConfig PC tbl now response st)) = environment (form_values st)"
    by (simp add: onLoadConfig_form setConfigValues_environment
          split: PickFileResponse.split action_result.split option.split)
  show "form_values (onLoadEnv PEC now (PickSuccess t) st) = (form_values st)\<lparr>environment := env\<rparr>"
    if "PEC t = ActionSuccess m env"
    using that by (simp add: onLoadEnv_cases)
next
  assume ok: "truthy (loadedVersion t) = Some v \<and> truthy (versionGroup tbl v) = Some g
        \<and> PC t g = ActionSuccess m loaded"
  then have f: "form_values (onLoadConfig PC tbl now (PickSuccess t) st)
                  = setConfigValues loaded (form_values st)"
    by (simp add: onLoadConfig_form)
  show "form_values (onLoadConfig PC tbl now (PickSuccess t) st)
          = (form_values st)\<lparr>api := api loaded, site := site loaded\<rparr>"
    unfolding f by (simp add: setConfigValues_def Let_def)
  show "navbarItems (site (form_values (onLoadConfig PC tbl now (PickSuccess t) st)))
            = navbarItems (site loaded)"
    unfolding f by (simp add: setConfigValues_site)
  show "supports (site (form_values (onLoadConfig PC tbl now (PickSuccess t) st)))
            = supports (site loaded)"
    unfolding f by (simp add: setConfigValues_site)
  show "footer (site (form_values (onLoadConfig PC tbl now (PickSuccess t) st)))
            = footer (site loaded)"
    unfolding f by (simp add: setConfigValues_site)
qed

text \<open>
  The theorem at a configuration file and at an environment file that load.
\<close>

theorem load_writes_own_sections_witness:
  "form_values (onLoadConfig ProcessConfiguration_ok example_table 1700000000000
      (PickSuccess (js ''version: 2.0.0'')) example_page)
     = \<lparr>api = 7, site = site example_loaded, environment = 2\<rparr>
   \<and> form_values (onLoadEnv ProcessEnvironmentConfig_ok 1700000000000
      (PickSuccess (js ''KEY=value'')) example_page)
     = \<lparr>api = 1, site = example_site, environment = 9\<rparr>"
proof -
  note T = load_writes_own_sections [where now = 1700000000000 and st = example_page]
  have v: "truthy (loadedVersion (js ''version: 2.0.0'')) = Some (js ''2.0.0'')"
    by (simp add: truthy_def loadedVersion_detectVersion version_assignment_at_def js_def
          skip_quote_def semver_at_def isWhiteSpace_def isQuote_def isDigit_def)
  have g: "truthy (versionGroup example_table (js ''2.0.0'')) = Some (js ''v2'')"
    by (simp add: versionGroup_def truthy_def js_def)
  have p: "ProcessConfiguration_ok (js ''version: 2.0.0'') (js ''v2'')
             = ActionSuccess (js ''Configuration loaded'') example_loaded"
    by simp
  have 1: "form_values (onLoadConfig ProcessConfiguration_ok example_table 1700000000000
          (PickSuccess (js ''version: 2.0.0'')) example_page)
        = (form_values example_page)\<lparr>api := api example_loaded, site := site example_loaded\<rparr>"
    using T [where PC = ProcessConfiguration_ok and tbl = example_table
        and t = "js ''version: 2.0.0''" and v = "js ''2.0.0''" and g = "js ''v2''"
        and loaded = example_loaded and m = "js ''Configuration loaded''"]
      v g p by blast
  have q: "ProcessEnvironmentConfig_ok (js ''KEY=value'')
             = ActionSuccess (js ''Environment loaded'') 9"
    by simp
  have 2: "form_values (onLoadEnv ProcessEnvironmentConfig_ok 1700000000000
          (PickSuccess (js ''KEY=value'')) example_page)
          = (form_values example_page)\<lparr>environment := 9\<rparr>"
    using T [where PEC = ProcessEnvironmentConfig_ok and t = "js ''KEY=value''"
        and env = 9 and m = "js ''Environment loaded''"] q
    by blast
  from 1 2 show ?thesis by simp
qed

section \<open>What the footer formatter depends on\<close>

lemma replacer_depends_on:
  assumes "getFullYear rt = getFullYear rt'" "config_version rt = config_version rt'"
    "nativeFunctionText rt = nativeFunctionText rt'"
    "siteAuthor d = siteAuthor d'" "siteName d = siteName d'" "twitterHandle d = twitterHandle d'"
  shows "replacer rt d = replacer rt' d'"
proof
  fix key
  have "formatMap rt d = formatMap rt' d'"
    using assms by (simp add: formatMap_def)
  then have "formatMap_get rt d key = formatMap_get rt' d' key"
    by (simp add: formatMap_get_def)
  moreover have "ToString rt v = ToString rt' v" for v
    using assms(3) by (simp add: ToString_def split: jsvalue.split)
  ultimately show "replacer rt d key = replacer rt' d' key"
    by (simp add: replacer_def)
qed

text \<open>
  Claim C2 says that the result of \<open>formatFooterContent\<close> depends on the lines and the
  site settings alone. The code reads the clock: the same line \<open>{{ year }}\<close> with the same
  settings gives one text in 2024 and another in 2025.
\<close>

theorem formatFooterContent_year_counterexample:
  "formatFooterContent (example_runtime 2024) [\<lparr>line_value = js ''{{ year }}''\<rparr>] None
     = js ''2024''
   \<and> formatFooterContent (example_runtime 2025) [\<lparr>line_value = js ''{{ year }}''\<rparr>] None
     = js ''2025''
   \<and> formatFooterContent (example_runtime 2024) [\<lparr>line_value = js ''{{ year }}''\<rparr>] None
     \<noteq> formatFooterContent (example_runtime 2025) [\<lparr>line_value = js ''{{ year }}''\<rparr>] None"
  by (simp add: formatFooterContent_def Let_def replace_global_footer_token
        js_def String_trim_def isWhiteSpace_def token_at_def isWordChar_def isDigit_def
        replacer_def formatMap_get_def formatMap_def ToString_def Number_toString_def
        digits_of.simps nullish_or_def)

text \<open>
  Claim C2, amended. \<open>formatFooterContent\<close> is a function of its arguments and of what it
  reads from its surroundings: two calls return the same text when they agree on the
  lines, on the year of the clock, on the version of the running configuration, on the
  text the engine prints for a built-in function, and on the author, the name and the
  handle of the site settings in force (the argument, or the configured settings when the
  argument is absent). No other field of the settings and nothing else matters, and the
  call changes no state.
\<close>

theorem formatFooterContent_deterministic:
  "getFullYear rt = getFullYear rt' \<and> config_version rt = config_version rt'
   \<and> nativeFunctionText rt = nativeFunctionText rt'
   \<and> siteAuthor (nullish_or siteConfig (config_siteConfig rt))
       = siteAuthor (nullish_or siteConfig' (config_siteConfig rt'))
   \<and> siteName (nullish_or siteConfig (config_siteConfig rt))
       = siteName (nullish_or siteConfig' (config_siteConfig rt'))
   \<and> twitterHandle (nullish_or siteConfig (config_siteConfig rt))
       = twitterHandle (nullish_or siteConfig' (config_siteConfig rt'))
   \<longrightarrow> formatFooterContent rt text_items siteConfig = formatFooterContent rt' text_items siteConfig'"
  using replacer_depends_on
    [of rt rt' "nullish_or siteConfig (config_siteConfig rt)"
        "nullish_or siteConfig' (config_siteConfig rt')"]
  by (simp add: formatFooterContent_def Let_def)

text \<open>
  The theorem at two calls of the year 2024 whose site settings in force differ in fields
  the formatter does not read: one takes the settings from the configuration, the other
  from its argument.
\<close>

theorem formatFooterContent_deterministic_witness:
  "formatFooterContent (example_runtime 2024)
     [\<lparr>line_value = js ''{{ siteName }} {{ year }}''\<rparr>] None
   = formatFooterContent
       ((example_runtime 2024)\<lparr>config_siteConfig := example_site\<lparr>siteName := None\<rparr>\<rparr>)
       [\<lparr>line_value = js ''{{ siteName }} {{ year }}''\<rparr>]
       (Some (example_site\<lparr>siteNameTemplate := None, footer := []\<rparr>))"
  using formatFooterContent_deterministic
    [where rt = "example_runtime 2024"
       and rt' = "(example_runtime 2024)\<lparr>config_siteConfig := example_site\<lparr>siteName := None\<rparr>\<rparr>"
       and siteConfig = None
       and siteConfig' = "Some (example_site\<lparr>siteNameTemplate := None, footer := []\<rparr>)"
       and text_items = "[\<lparr>line_value = js ''{{ siteName }} {{ year }}''\<rparr>]"]
  by (simp add: nullish_or_def)

section \<open>Keys outside the lookup table\<close>

lemma replacer_unknown_key:
  assumes "key \<notin> fst ` set (formatMap rt data)" "key \<notin> fst ` set Object_prototype_functions"
    "key \<noteq> js ''__proto__''"
  shows "replacer rt data key = []"
proof -
  have "map_of (formatMap rt data) key = None" "map_of Object_prototype_functions key = None"
    using assms(1,2) by (simp_all add: map_of_eq_None_iff)
  then show ?thesis
    using assms(3) by (simp add: replacer_def formatMap_get_def ToString_def)
qed

text \<open>
  Claim C7 says that a token whose key is not in the lookup table is replaced by the empty
  text. The code reads the key as a property of an object literal, which also answers for
  the names it inherits: \<open>{{ __proto__ }}\<close> is replaced by \<open>[object Object]\<close> and
  \<open>{{ constructor }}\<close> by the text of a built-in function, while \<open>{{ foo }}\<close> is replaced
  by the empty text, as is every key that is neither in the table nor inherited.
\<close>

theorem formatFooterContent_inherited_key:
  "formatFooterContent rt [\<lparr>line_value = js ''{{ __proto__ }}''\<rparr>] siteConfig
     = js ''[object Object]''
   \<and> formatFooterContent rt [\<lparr>line_value = js ''{{ constructor }}''\<rparr>] siteConfig
     = nativeFunctionText rt (js ''Object'')
   \<and> formatFooterContent rt [\<lparr>line_value = js ''{{ foo }}''\<rparr>] siteConfig = []
   \<and> (key \<notin> fst ` set (formatMap rt data) \<and> key \<notin> fst ` set Object_prototype_functions
        \<and> key \<noteq> js ''__proto__'' \<longrightarrow> replacer rt data key = [])"
proof (intro conjI)
  show "key \<notin> fst ` set (formatMap rt data) \<and> key \<notin> fst ` set Object_prototype_functions
        \<and> key \<noteq> js ''__proto__'' \<longrightarrow> replacer rt data key = []"
    using replacer_unknown_key by blast
qed (simp_all add: formatFooterContent_def Let_def replace_global_footer_token
        js_def String_trim_def isWhiteSpace_def token_at_def isWordChar_def isDigit_def
        replacer_def formatMap_get_def formatMap_def ToString_def Object_prototype_functions_def)

text \<open>
  The theorem at a runtime whose engine prints built-in functions as V8 does, and at the
  key \<open>foo\<close>.
\<close>

theorem formatFooterContent_inherited_key_witness:
  "formatFooterContent (example_runtime 2024) [\<lparr>line_value = js ''{{ __proto__ }}''\<rparr>] None
     = js ''[object Object]''
   \<and> formatFooterContent (example_runtime 2024) [\<lparr>line_value = js ''{{ constructor }}''\<rparr>] None
     = js ''function Object() { [native code] }''
   \<and> replacer (example_runtime 2024) example_site (js ''foo'') = []"
proof -
  note T = formatFooterContent_inherited_key
    [where rt = "example_runtime 2024" and siteConfig = None and data = example_site
       and key = "js ''foo''"]
  have k: "js ''foo'' \<notin> fst ` set (formatMap (example_runtime 2024) example_site)"
    "js ''foo'' \<notin> fst ` set Object_prototype_functions" "js ''foo'' \<noteq> js ''__proto__''"
    by (simp_all add: formatMap_def Object_prototype_functions_def js_def)
  have "replacer (example_runtime 2024) example_site (js ''foo'') = []"
    using T k by blast
  moreover have "formatFooterContent (example_runtime 2024)
      [\<lparr>line_value = js ''{{ __proto__ }}''\<rparr>] None = js ''[object Object]''"
    using T by blast
  moreover have "formatFooterContent (example_runtime 2024)
      [\<lparr>line_value = js ''{{ constructor }}''\<rparr>] None
      = nativeFunctionText (example_runtime 2024) (js ''Object'')"
    using T by blast
  then have "formatFooterContent (example_runtime 2024)
      [\<lparr>line_value = js ''{{ constructor }}''\<rparr>] None = js ''function Object() { [native code] }''"
    by (simp add: js_def)
  ultimately show ?thesis by (intro conjI)
qed

section \<open>The site name template\<close>

text \<open>\<open>split_first\<close> splits a text at the leftmost occurrence of the pattern.\<close>

lemma split_first_Some:
  "split_first pat s = Some (before, after) \<Longrightarrow> s = before @ pat @ after"
proof (induction s arbitrary: before)
  case Nil
  then show ?case by (simp split: if_splits)
next
  case (Cons c cs)
  show ?case
  proof (cases "prefix pat (c # cs)")
    case True
    then obtain zs where zs: "c # cs = pat @ zs" by (auto simp: prefix_def)
    from True Cons.prems have "before = []" "after = drop (length pat) (c # cs)" by simp_all
    then show ?thesis unfolding zs by simp
  next
    case False
    with Cons.prems obtain b where "split_first pat cs = Some (b, after)" "before = c # b"
      by auto
    with Cons.IH show ?thesis by simp
  qed
qed

lemma split_first_None: "split_first pat s = None \<Longrightarrow> \<not> sublist pat s"
proof (induction s)
  case Nil
  then show ?case by (simp split: if_splits)
next
  case (Cons c cs)
  then show ?case by (auto simp: sublist_Cons_right split: if_splits)
qed

lemma split_first_leftmost:
  "split_first pat s = Some (before, after) \<Longrightarrow> pat \<noteq> [] \<Longrightarrow>
   \<not> sublist pat (before @ butlast pat)"
proof (induction s arbitrary: before)
  case Nil
  then show ?case by (simp split: if_splits)
next
  case (Cons c cs)
  show ?case
  proof (cases "prefix pat (c # cs)")
    case True
    with Cons.prems have "before = []" by simp
    moreover have "\<not> sublist pat (butlast pat)"
      using Cons.prems(2)
      by (metis length_butlast diff_less length_greater_0_conv less_numeral_extra(1)
            sublist_length_le not_less)
    ultimately show ?thesis by simp
  next
    case False
    with Cons.prems obtain b where b: "split_first pat cs = Some (b, after)" "before = c # b"
      by auto
    then have s: "cs = b @ pat @ after" using split_first_Some by blast
    have ih: "\<not> sublist pat (b @ butlast pat)" using Cons.IH b(1) Cons.prems(2) by blast
    have "\<not> prefix pat (c # b @ butlast pat)"
    proof
      assume "prefix pat (c # b @ butlast pat)"
      moreover have "prefix (c # b @ butlast pat) (c # cs)"
        unfolding s using Cons.prems(2)
        by (metis append_butlast_last_id append.assoc prefix_def Cons_prefix_Cons)
      ultimately have "prefix pat (c # cs)" by (rule prefix_order.trans)
      with False show False by blast
    qed
    with ih show ?thesis unfolding b(2) by (simp add: sublist_Cons_right)
  qed
qed

lemma GetSubstitution_plain:
  "0x24 \<notin> set replacement \<Longrightarrow> GetSubstitution matched before after replacement = replacement"
  by (induction matched before after replacement rule: GetSubstitution.induct) auto

lemma String_replace_plain:
  "0x24 \<notin> set replacement \<Longrightarrow> String_replace s pat replacement = replace_first s pat replacement"
  by (simp add: String_replace_def replace_first_def GetSubstitution_plain split: option.split)

text \<open>
  Claim C6 says that the preview is the template with the first \<open>%t\<close> replaced by the site
  name and the first \<open>%s\<close> by the page title. The code passes the site name as the
  replacement text of \<open>replace\<close>, where a dollar sign is special: the site name
  \<open>A$$B\<close> is shown as \<open>A$B\<close>, and \<open>[$&]\<close> as \<open>[%t]\<close>. Only the first occurrence of
  each placeholder is replaced, and for a site name without a dollar sign the preview is
  the literal replacement of the claim.
\<close>

theorem siteNamePreview_dollar:
  "siteNamePreview (Some (js ''%t - %s'')) (Some (js ''A$$B'')) = js ''A$B - Page Title Goes Here''
   \<and> siteNamePreview (Some (js ''%t'')) (Some (js ''[$&]'')) = js ''[%t]''
   \<and> siteNamePreview (Some (js ''%t - %s - %t - %s'')) (Some (js ''Index''))
       = js ''Index - Page Title Goes Here - %t - %s''
   \<and> (0x24 \<notin> set n \<longrightarrow>
        siteNamePreview (Some t) (Some n)
          = replace_first (replace_first t (js ''%t'') n) (js ''%s'') (js ''Page Title Goes Here''))"
proof (intro conjI)
  have "0x24 \<notin> set (js ''Page Title Goes Here'')" by (simp add: js_def)
  then show "0x24 \<notin> set n \<longrightarrow>
        siteNamePreview (Some t) (Some n)
          = replace_first (replace_first t (js ''%t'') n) (js ''%s'') (js ''Page Title Goes Here'')"
    by (simp add: siteNamePreview_def nullish_or_def String_replace_plain)
qed (simp_all add: siteNamePreview_def String_replace_def nullish_or_def js_def)

text \<open>The theorem at a template with a repeated placeholder and the site name Index.\<close>

theorem siteNamePreview_dollar_witness:
  "siteNamePreview (Some (js ''%s | %t | %t'')) (Some (js ''Index''))
     = js ''Page Title Goes Here | Index | %t''"
proof -
  have "0x24 \<notin> set (js ''Index'')" by (simp add: js_def)
  then have "siteNamePreview (Some (js ''%s | %t | %t'')) (Some (js ''Index''))
          = replace_first (replace_first (js ''%s | %t | %t'') (js ''%t'') (js ''Index''))
              (js ''%s'') (js ''Page Title Goes Here'')"
    using siteNamePreview_dollar [where n = "js ''Index''" and t = "js ''%s | %t | %t''"]
    by blast
  then show ?thesis by (simp add: replace_first_def js_def)
qed


section \<open>Editing the navbar items\<close>

lemma fieldArray_append_remove: "fieldArray_remove (fieldArray_append xs x) (length xs) = xs"
  by (simp add: fieldArray_remove_def fieldArray_append_def)

lemma fieldArray_remove_at:
  "fieldArray_remove (before @ y # after) (length before) = before @ after"
  by (simp add: fieldArray_remove_def)

lemma fieldArray_remove_beyond: "length ys \<le> i \<Longrightarrow> fieldArray_remove ys i = ys"
  by (simp add: fieldArray_remove_def)

lemma navbar_addItem_items:
  "navbarItems (site (form_values (navbar_addItem st)))
     = navbarItems (site (form_values st))
       @ [\<lparr>icon = js ''Link'', name = js ''New Item'', href = js ''/new-item'', external = False\<rparr>]"
  by (simp add: navbar_addItem_def update_navbarItems_def fieldArray_append_def)

lemma navbar_deleteItem_items:
  "navbarItems (site (form_values (navbar_deleteItem i st)))
     = fieldArray_remove (navbarItems (site (form_values st))) i"
  by (simp add: navbar_deleteItem_def update_navbarItems_def)

lemma navbar_add_then_delete_last:
  "navbar_deleteItem (length (navbarItems (site (form_values (navbar_addItem st)))) - 1)
     (navbar_addItem st) = st"
  unfolding navbar_addItem_items
  by (simp add: fieldArray_append_remove navbar_deleteItem_def navbar_addItem_def
        update_navbarItems_def)

text \<open>
  Claim C8. For every sequence of navbar items and every item, appending the item and
  then removing the element at the last index gives the sequence back, element by element
  and in order. Appending puts the item at the end, so the sequence grows by one and the
  last index, taken from the sequence after the append, is the index of the new item;
  removing at an index takes out the element at that index and no other, and changes
  nothing beyond the end. On the page, Add Item puts its new item at the end of the navbar
  items, Delete Item removes the item at its index, and Add Item followed by Delete Item at
  the last index of the list as it then is gives the page back.
\<close>

theorem navbarItems_append_then_remove:
  "fieldArray_append xs x = xs @ [x]
   \<and> length (fieldArray_append xs x) = Suc (length xs)
   \<and> fieldArray_remove (fieldArray_append xs x) (length (fieldArray_append xs x) - 1) = xs
   \<and> fieldArray_remove (fieldArray_append xs x) (length xs) = xs
   \<and> fieldArray_remove (before @ y # after) (length before) = before @ after
   \<and> (length ys \<le> i \<longrightarrow> fieldArray_remove ys i = ys)
   \<and> navbarItems (site (form_values (navbar_addItem st)))
       = navbarItems (site (form_values st))
         @ [\<lparr>icon = js ''Link'', name = js ''New Item'', href = js ''/new-item'', external = False\<rparr>]
   \<and> navbarItems (site (form_values (navbar_deleteItem i st)))
       = fieldArray_remove (navbarItems (site (form_values st))) i
   \<and> navbar_deleteItem (length (navbarItems (site (form_values (navbar_addItem st)))) - 1)
         (navbar_addItem st) = st
   \<and> navbar_deleteItem (length (navbarItems (site (form_values st)))) (navbar_addItem st) = st"
proof -
  have 1: "fieldArray_append xs x = xs @ [x]"
    by (simp add: fieldArray_append_def)
  have 2: "length (fieldArray_append xs x) = Suc (length xs)"
    by (simp add: fieldArray_append_def)
  have 3: "fieldArray_remove (fieldArray_append xs x) (length (fieldArray_append xs x) - 1) = xs"
    unfolding 2 by (simp add: fieldArray_append_remove)
  have 4: "fieldArray_remove (fieldArray_append xs x) (length xs) = xs"
    by (rule fieldArray_append_remove)
  have 5: "fieldArray_remove (before @ y # after) (length before) = before @ after"
    by (rule fieldArray_remove_at)
  have 6: "length ys \<le> i \<longrightarrow> fieldArray_remove ys i = ys"
    using fieldArray_remove_beyond by blast
  have 7: "navbarItems (site (form_values (navbar_addItem st)))
       = navbarItems (site (form_values st))
         @ [\<lparr>icon = js ''Link'', name = js ''New Item'', href = js ''/new-item'', external = False\<rparr>]"
    by (rule navbar_addItem_items)
  have 8: "navbarItems (site (form_values (navbar_deleteItem i st)))
       = fieldArray_remove (navbarItems (site (form_values st))) i"
    by (rule navbar_deleteItem_items)
  have 9: "navbar_deleteItem (length (navbarItems (site (form_values (navbar_addItem st)))) - 1)
         (navbar_addItem st) = st"
    by (rule navbar_add_then_delete_last)
  have 10: "navbar_deleteItem (length (navbarItems (site (form_values st)))) (navbar_addItem st) = st"
    using 9 unfolding navbar_addItem_items by simp
  from 1 2 3 4 5 6 7 8 9 10 show ?thesis by (intro conjI)
qed

text \<open>
  The theorem at the list of one item of the example site with the item that Add Item
  appends, and at the page that holds the list: the list after the append has two items,
  removing at its last index 1 gives the one item back, while removing at the last index
  of the list before the append would have taken that item out; an index beyond the end
  removes nothing.
\<close>

theorem navbarItems_append_then_remove_witness:
  "fieldArray_append (navbarItems example_site)
     \<lparr>icon = js ''Link'', name = js ''New Item'', href = js ''/new-item'', external = False\<rparr>
   = [\<lparr>icon = js ''Home'', name = js ''Home'', href = js ''/'', external = False\<rparr>,
      \<lparr>icon = js ''Link'', name = js ''New Item'', href = js ''/new-item'', external = False\<rparr>]
   \<and> fieldArray_remove
       (fieldArray_append (navbarItems example_site)
          \<lparr>icon = js ''Link'', name = js ''New Item'', href = js ''/new-item'', external = False\<rparr>)
       1
     = navbarItems example_site
   \<and> fieldArray_remove (navbarItems example_site) 0 = []
   \<and> fieldArray_remove (navbarItems example_site) 5 = navbarItems example_site
   \<and> navbarItems (site (form_values (navbar_addItem example_page)))
     = [\<lparr>icon = js ''Home'', name = js ''Home'', href = js ''/'', external = False\<rparr>,
        \<lparr>icon = js ''Link'', name = js ''New Item'', href = js ''/new-item'', external = False\<rparr>]
   \<and> navbar_deleteItem 1 (navbar_addItem example_page) = example_page
   \<and> navbar_addItem example_page \<noteq> example_page"
proof -
  let ?new = "\<lparr>icon = js ''Link'', name = js ''New Item'', href = js ''/new-item'', external = False\<rparr>"
  let ?home = "\<lparr>icon = js ''Home'', name = js ''Home'', href = js ''/'', external = False\<rparr>"
  note T = navbarItems_append_then_remove
    [where xs = "navbarItems example_site" and x = ?new and st = example_page
       and before = "[]" and y = ?home and after = "[]"
       and ys = "navbarItems example_site" and i = 5]
  note T1 = T [THEN conjunct1]
  note T3 = T [THEN conjunct2, THEN conjunct2, THEN conjunct1]
  note T5 = T [THEN conjunct2, THEN conjunct2, THEN conjunct2, THEN conjunct2, THEN conjunct1]
  note T6 = T [THEN conjunct2, THEN conjunct2, THEN conjunct2, THEN conjunct2, THEN conjunct2,
               THEN conjunct1]
  note T7 = T [THEN conjunct2, THEN conjunct2, THEN conjunct2, THEN conjunct2, THEN conjunct2,
               THEN conjunct2, THEN conjunct1]
  note T9 = T [THEN conjunct2, THEN conjunct2, THEN conjunct2, THEN conjunct2, THEN conjunct2,
               THEN conjunct2, THEN conjunct2, THEN conjunct2, THEN conjunct1]
  have a: "fieldArray_append (navbarItems example_site) ?new = [?home, ?new]"
    using T1 by simp
  have la: "length (fieldArray_append (navbarItems example_site) ?new) - 1 = 1"
    unfolding a by simp
  have b: "fieldArray_remove (fieldArray_append (navbarItems example_site) ?new) 1
                  = navbarItems example_site"
    using T3 [unfolded la] .
  have "fieldArray_remove ([] @ ?home # []) (length ([] :: navbar_item list)) = [] @ []"
    by (rule T5)
  then have c: "fieldArray_remove (navbarItems example_site) 0 = []"
    by simp
  have "length (navbarItems example_site) \<le> 5" by simp
  then have d: "fieldArray_remove (navbarItems example_site) 5 = navbarItems example_site"
    using T6 by blast
  have e: "navbarItems (site (form_values (navbar_addItem example_page))) = [?home, ?new]"
    using T7 by simp
  have le: "length (navbarItems (site (form_values (navbar_addItem example_page)))) - 1 = 1"
    unfolding e by simp
  have f: "navbar_deleteItem 1 (navbar_addItem example_page) = example_page"
    using T9 [unfolded le] .
  have g: "navbar_addItem example_page \<noteq> example_page"
  proof
    assume "navbar_addItem example_page = example_page"
    then have "navbarItems (site (form_values (navbar_addItem example_page)))
                 = navbarItems (site (form_values example_page))"
      by (simp only:)
    then show False unfolding e by simp
  qed
  from a b c d e f g show ?thesis by (intro conjI)
qed

section \<open>The name of the generated archive\<close>

lemma digits_of_digits: "list_all isDigit (digits_of n) \<and> digits_of n \<noteq> []"
proof (induction n rule: digits_of.induct)
  case (1 n)
  have d: "isDigit (of_nat (48 + k))" if "k < 10" for k
  proof -
    have "unat (of_nat (48 + k) :: 16 word) = 48 + k"
      using that by (simp add: unat_of_nat del: of_nat_add)
    with that show ?thesis by (simp add: isDigit_def word_le_nat_alt del: of_nat_add)
  qed
  show ?case
  proof (cases "n < 10")
    case True
    then show ?thesis using d [of n] by (subst (1 2) digits_of.simps) simp
  next
    case False
    then show ?thesis using 1 d [of "n mod 10"]
      by (subst (1 2) digits_of.simps) simp
  qed
qed

lemma Number_toString_digits:
  "0 \<le> n \<Longrightarrow> list_all isDigit (Number_toString n) \<and> Number_toString n \<noteq> []"
  using digits_of_digits by (simp add: Number_toString_def)

text \<open>
  Claim C9 says that the suggested file name is a time stamp followed by \<open>-config.zip\<close>.
  A generation at the clock reading 1700000000001 suggests
  \<open>1700000000001-gIndex.config.zip\<close>, which does not end in \<open>-config.zip\<close>.
\<close>

theorem download_name_counterexample:
  "map fst (downloads (onFormSubmit GenerateConfiguration_ok 1700000000000 1700000000001
      example_document example_page))
     = [js ''1700000000001-gIndex.config.zip'']
   \<and> \<not> suffix (js ''-config.zip'') (js ''1700000000001-gIndex.config.zip'')
   \<and> js ''1700000000001-gIndex.config.zip'' \<noteq> Number_toString 1700000000001 @ js ''-config.zip''"
  by (simp add: onFormSubmit_def Let_def send_toast_def Number_toString_def digits_of.simps js_def
        suffix_to_prefix)

text \<open>
  Claim C9, amended. For every successful generation the one file handed to the browser
  has the name \<open><Date.now()>-gIndex.config.zip\<close>: the decimal digits of the clock reading
  in milliseconds at the time of the download, followed by the literal suffix
  \<open>-gIndex.config.zip\<close>. A failed generation hands over no file.
\<close>

theorem download_name_form:
  "(GC doc = ActionSuccess m archive \<longrightarrow>
      downloads (onFormSubmit GC now now' doc st)
        = downloads st @ [(Number_toString now' @ js ''-gIndex.config.zip'', archive)])
   \<and> (GC doc = ActionFailure m e \<longrightarrow>
      downloads (onFormSubmit GC now now' doc st) = downloads st)
   \<and> (0 \<le> now' \<longrightarrow> list_all isDigit (Number_toString now') \<and> Number_toString now' \<noteq> [])"
  using Number_toString_digits [of now']
  by (simp add: onFormSubmit_def Let_def send_toast_def)

text \<open>
  The theorem at a generation that succeeds at the clock reading 1700000000001, and at one
  that fails.
\<close>

theorem download_name_form_witness:
  "downloads (onFormSubmit GenerateConfiguration_ok 1700000000000 1700000000001
      example_document example_page)
     = [(js ''1700000000001-gIndex.config.zip'', [0x50, 0x4B])]
   \<and> downloads (onFormSubmit GenerateConfiguration_failing 1700000000000 1700000000001
      example_document example_page) = []
   \<and> list_all isDigit (Number_toString 1700000000001)"
proof -
  note T = download_name_form
    [where doc = example_document and now = 1700000000000 and now' = 1700000000001
       and st = example_page]
  have ok: "GenerateConfiguration_ok example_document
              = ActionSuccess (js ''Configuration generated'') [0x50, 0x4B]"
    by simp
  have "downloads (onFormSubmit GenerateConfiguration_ok 1700000000000 1700000000001
          example_document example_page)
        = downloads example_page
            @ [(Number_toString 1700000000001 @ js ''-gIndex.config.zip'', [0x50, 0x4B])]"
    using T [where GC = GenerateConfiguration_ok and m = "js ''Configuration generated''"
        and archive = "[0x50, 0x4B]"] ok
    by blast
  moreover have "Number_toString 1700000000001 @ js ''-gIndex.config.zip''
                   = js ''1700000000001-gIndex.config.zip''"
    by (simp add: Number_toString_def digits_of.simps js_def)
  moreover have failing: "GenerateConfiguration_failing example_document
              = ActionFailure (js ''Failed to generate'') (js ''site.siteName: Required'')"
    by simp
  have "downloads (onFormSubmit GenerateConfiguration_failing 1700000000000 1700000000001
          example_document example_page) = downloads example_page"
    using T [where GC = GenerateConfiguration_failing and m = "js ''Failed to generate''"
        and e = "js ''site.siteName: Required''"] failing
    by blast
  moreover have "list_all isDigit (Number_toString 1700000000001)"
    using T [where GC = GenerateConfiguration_ok] by simp
  ultimately show ?thesis by simp
qed

end
